theory Spec2Isabelle
  imports Complex_Main "HOL-Library.AList" "HOL-Library.Multiset" "HOL-Library.Sublist"
begin

section \<open>JavaScript values used by the TAK server client\<close>

text \<open>
  A JavaScript number is a double.  The finite ones are modelled by the real they denote
  (rounding to the nearest double and the sign of zero are not modelled); \<open>NaN\<close> and the
  two infinities are values of their own, because the client's defaulting idiom
  \<^verbatim>\<open>parseFloat(x) || 999999\<close> depends on them.
\<close>

datatype jsnum = NaN | PosInf | NegInf | Fin real

text \<open>\<^verbatim>\<open>ToBoolean\<close> on a number: \<open>NaN\<close> and zero are falsy, everything else is truthy.\<close>

fun truthy :: "jsnum \<Rightarrow> bool" where
  "truthy NaN = False"
| "truthy (Fin r) = (r \<noteq> 0)"
| "truthy PosInf = True"
| "truthy NegInf = True"

text \<open>\<^verbatim>\<open>a || b\<close> on numbers.\<close>

definition js_or :: "jsnum \<Rightarrow> jsnum \<Rightarrow> jsnum" where
  "js_or a b = (if truthy a then a else b)"

text \<open>\<^verbatim>\<open>a !== b\<close> on numbers: \<open>NaN\<close> is different from everything, itself included.\<close>

definition js_neq :: "jsnum \<Rightarrow> jsnum \<Rightarrow> bool" where
  "js_neq a b = (a = NaN \<or> b = NaN \<or> a \<noteq> b)"

text \<open>
  An attribute as the XML parser hands it over (\<^verbatim>\<open>parseAttributeValue: true\<close>): absent,
  already a number, or text.
\<close>

datatype jsval = JUndefined | JNum jsnum | JStr string

subsection \<open>\<^verbatim>\<open>parseFloat\<close>\<close>

text \<open>
  ECMAScript \<^verbatim>\<open>parseFloat\<close>: skip leading white space, take the longest prefix that is a
  \<^verbatim>\<open>StrDecimalLiteral\<close> (optional sign, then \<^verbatim>\<open>Infinity\<close> or digits with an optional
  fraction and an optional exponent) and return its value; \<open>NaN\<close> when there is no such
  prefix.  White space is the ASCII white space (the text is a list of bytes).
\<close>

definition is_digit :: "char \<Rightarrow> bool" where
  "is_digit c = (48 \<le> (of_char c :: nat) \<and> (of_char c :: nat) \<le> 57)"

definition is_space :: "char \<Rightarrow> bool" where
  "is_space c = ((of_char c :: nat) \<in> {9, 10, 11, 12, 13, 32})"

fun digits_value :: "nat \<Rightarrow> string \<Rightarrow> nat" where
  "digits_value acc [] = acc"
| "digits_value acc (c # cs) = digits_value (10 * acc + ((of_char c :: nat) - 48)) cs"

fun starts_with :: "string \<Rightarrow> string \<Rightarrow> bool" where
  "starts_with [] s = True"
| "starts_with (p # ps) [] = False"
| "starts_with (p # ps) (c # cs) = (p = c \<and> starts_with ps cs)"

text \<open>The exponent part \<^verbatim>\<open>e[+-]digits\<close> at the head of the rest, 0 when there is none.\<close>

definition exponent_part :: "string \<Rightarrow> int" where
  "exponent_part s =
     (case s of
        [] \<Rightarrow> 0
      | c # cs \<Rightarrow>
          if c = CHR ''e'' \<or> c = CHR ''E'' then
            (case cs of
               [] \<Rightarrow> 0
             | d # ds \<Rightarrow>
                 if d = CHR ''-'' then
                   (if takeWhile is_digit ds = [] then 0
                    else - int (digits_value 0 (takeWhile is_digit ds)))
                 else if d = CHR ''+'' then int (digits_value 0 (takeWhile is_digit ds))
                 else int (digits_value 0 (takeWhile is_digit cs)))
          else 0)"

definition scale10 :: "real \<Rightarrow> int \<Rightarrow> real" where
  "scale10 m e = (if 0 \<le> e then m * 10 ^ nat e else m / 10 ^ nat (- e))"

definition parse_unsigned :: "string \<Rightarrow> jsnum" where
  "parse_unsigned s =
     (let ip = takeWhile is_digit s;
          r1 = dropWhile is_digit s;
          dot = (r1 \<noteq> [] \<and> hd r1 = CHR ''.'');
          fp = (if dot then takeWhile is_digit (tl r1) else []);
          r2 = (if dot then dropWhile is_digit (tl r1) else r1)
      in if ip = [] \<and> fp = [] then
           (if starts_with ''Infinity'' s then PosInf else NaN)
         else Fin (scale10 (real (digits_value 0 (ip @ fp)) / 10 ^ length fp)
                     (exponent_part r2)))"

fun negate :: "jsnum \<Rightarrow> jsnum" where
  "negate NaN = NaN"
| "negate PosInf = NegInf"
| "negate NegInf = PosInf"
| "negate (Fin r) = Fin (- r)"

definition parseFloat_str :: "string \<Rightarrow> jsnum" where
  "parseFloat_str s =
     (case dropWhile is_space s of
        [] \<Rightarrow> NaN
      | c # cs \<Rightarrow>
          if c = CHR ''-'' then negate (parse_unsigned cs)
          else if c = CHR ''+'' then parse_unsigned cs
          else parse_unsigned (c # cs))"

text \<open>
  \<^verbatim>\<open>parseFloat(v)\<close> first turns \<open>v\<close> into text: \<^verbatim>\<open>undefined\<close> becomes the text
  "undefined", which has no numeric prefix; a number prints and parses back to itself.
\<close>

fun parseFloat :: "jsval \<Rightarrow> jsnum" where
  "parseFloat JUndefined = NaN"
| "parseFloat (JNum n) = n"
| "parseFloat (JStr s) = parseFloat_str s"

subsection \<open>Dates\<close>

text \<open>
  A \<^verbatim>\<open>Date\<close> holds milliseconds since the epoch, or is the invalid date (time value
  \<open>NaN\<close>).  Relational comparison of dates compares the time values; with an invalid
  date on either side it is false.
\<close>

datatype jsdate = InvalidDate | Date int

fun date_gt :: "jsdate \<Rightarrow> jsdate \<Rightarrow> bool" where
  "date_gt (Date a) (Date b) = (a > b)"
| "date_gt _ _ = False"

text \<open>
  \<^verbatim>\<open>new Date(v)\<close>: the invalid date for \<^verbatim>\<open>undefined\<close>, the truncated time value for a
  number in range, and \<^verbatim>\<open>Date.parse\<close> for text.  What \<^verbatim>\<open>Date.parse\<close> accepts beyond
  the ISO format is left to the implementation by the language, so it is a parameter.
\<close>

definition time_clip :: "real \<Rightarrow> jsdate" where
  "time_clip r = (if \<bar>r\<bar> \<le> 8640000000000000
                  then Date (if 0 \<le> r then \<lfloor>r\<rfloor> else \<lceil>r\<rceil>) else InvalidDate)"

fun new_Date :: "(string \<Rightarrow> jsdate) \<Rightarrow> jsval \<Rightarrow> jsdate" where
  "new_Date Date_parse JUndefined = InvalidDate"
| "new_Date Date_parse (JNum (Fin r)) = time_clip r"
| "new_Date Date_parse (JNum _) = InvalidDate"
| "new_Date Date_parse (JStr s) = Date_parse s"

section \<open>CoT events (\<^verbatim>\<open>types/cot.ts\<close>) and their decoding (\<^verbatim>\<open>clients/tak-server.ts\<close>)\<close>

record CotPoint =
  lat :: jsnum
  lon :: jsnum
  hae :: jsnum
  ce :: jsnum
  le :: jsnum

text \<open>The detail fields the client reads; every level of the nesting is optional.\<close>

record CotDetail =
  contact_callsign :: "string option"
  group_name :: "string option"
  group_role :: "string option"
  status_battery :: "real option"
  status_readiness :: "bool option"
  track_speed :: "real option"
  track_course :: "real option"

record CotEvent =
  uid :: "string option"
  type :: "string option"
  time :: jsdate
  start :: jsdate
  stale :: jsdate
  how :: "string option"
  point :: CotPoint
  detail :: "CotDetail option"

text \<open>The decoded XML element handed to \<^verbatim>\<open>parseCotEvent\<close> (\<^verbatim>\<open>eventData: any\<close>).\<close>

record raw_point =
  raw_lat :: jsval
  raw_lon :: jsval
  raw_hae :: jsval
  raw_ce :: jsval
  raw_le :: jsval

record raw_event =
  raw_uid :: "string option"
  raw_type :: "string option"
  raw_time :: jsval
  raw_start :: jsval
  raw_stale :: jsval
  raw_how :: "string option"
  raw_point :: "raw_point option"
  raw_detail :: "CotDetail option"

datatype js_error = TypeError | Error string

definition unknown_sentinel :: jsnum where
  "unknown_sentinel = Fin 999999"

text \<open>
  \<^verbatim>\<open>parseCotEvent\<close>.  Reading \<^verbatim>\<open>eventData.point.lat\<close> throws a \<^verbatim>\<open>TypeError\<close> when the
  event has no \<^verbatim>\<open>point\<close> element; nothing else is checked.
\<close>

definition parseCotEvent :: "(string \<Rightarrow> jsdate) \<Rightarrow> raw_event \<Rightarrow> js_error + CotEvent" where
  "parseCotEvent Date_parse eventData =
     (case raw_point eventData of
        None \<Rightarrow> Inl TypeError
      | Some p \<Rightarrow>
          Inr \<lparr> uid = raw_uid eventData,
                type = raw_type eventData,
                time = new_Date Date_parse (raw_time eventData),
                start = new_Date Date_parse (raw_start eventData),
                stale = new_Date Date_parse (raw_stale eventData),
                how = raw_how eventData,
                point = \<lparr> lat = parseFloat (raw_lat p),
                           lon = parseFloat (raw_lon p),
                           hae = js_or (parseFloat (raw_hae p)) unknown_sentinel,
                           ce = js_or (parseFloat (raw_ce p)) unknown_sentinel,
                           le = js_or (parseFloat (raw_le p)) unknown_sentinel \<rparr>,
                detail = raw_detail eventData \<rparr>)"

section \<open>Entities (\<^verbatim>\<open>types/tak.ts\<close>) and \<^verbatim>\<open>TAKServerClient.getEntities\<close>\<close>

text \<open>
  The number type of the coordinates is a parameter: \<open>jsnum\<close> where entities come out of
  the decoder, \<open>real\<close> where the geometry of the tools is computed on them.
\<close>

record 'n TAKLocation =
  loc_lat :: 'n
  loc_lon :: 'n
  loc_alt :: "'n option"

record EntityStatus =
  online :: bool
  battery :: "real option"
  speed :: "real option"
  course :: "real option"
  readiness :: string

record 'n TAKEntity =
  ent_uid :: "string option"
  callsign :: "string option"
  ent_type :: "string option"
  team :: string
  role :: string
  location :: "'n TAKLocation"
  lastUpdate :: jsdate
  status :: EntityStatus
  attributes :: "CotDetail option"

text \<open>\<^verbatim>\<open>d?.field || fallback\<close> on text: an absent or empty text gives the fallback.\<close>

definition text_or :: "string option \<Rightarrow> string \<Rightarrow> string" where
  "text_or v fallback = (case v of None \<Rightarrow> fallback | Some s \<Rightarrow> if s = [] then fallback else s)"

definition detail_field :: "CotDetail option \<Rightarrow> (CotDetail \<Rightarrow> 'a option) \<Rightarrow> 'a option" where
  "detail_field d f = (case d of None \<Rightarrow> None | Some x \<Rightarrow> f x)"

text \<open>The entity literal built from an event, the same in \<^verbatim>\<open>getEntities\<close> and \<^verbatim>\<open>getEntity\<close>.\<close>

definition toEntity :: "int \<Rightarrow> CotEvent \<Rightarrow> jsnum TAKEntity" where
  "toEntity now event =
     \<lparr> ent_uid = uid event,
       callsign = (case detail_field (detail event) contact_callsign of
                     None \<Rightarrow> uid event
                   | Some s \<Rightarrow> if s = [] then uid event else Some s),
       ent_type = type event,
       team = text_or (detail_field (detail event) group_name) ''Unknown'',
       role = text_or (detail_field (detail event) group_role) ''Unknown'',
       location = \<lparr> loc_lat = lat (point event),
                      loc_lon = lon (point event),
                      loc_alt = (if js_neq (hae (point event)) unknown_sentinel
                                 then Some (hae (point event)) else None) \<rparr>,
       lastUpdate = time event,
       status = \<lparr> online = date_gt (stale event) (Date now),
                    battery = detail_field (detail event) status_battery,
                    speed = detail_field (detail event) track_speed,
                    course = detail_field (detail event) track_course,
                    readiness = (if detail_field (detail event) status_readiness = Some True
                                 then ''ready'' else ''unknown'') \<rparr>,
       attributes = detail event \<rparr>"

record entity_params =
  teams :: "string list option"
  roles :: "string list option"

text \<open>
  The body of the loop over the events.  The \<^verbatim>\<open>Map\<close> is an association list in insertion
  order, which is the order \<^verbatim>\<open>entitiesMap.values()\<close> iterates in; setting an existing key
  keeps its place.  Both \<^verbatim>\<open>continue\<close> statements sit inside the freshness test.
\<close>

definition getEntities_step ::
  "entity_params \<Rightarrow> int \<Rightarrow> (string option \<times> jsnum TAKEntity) list \<Rightarrow> CotEvent
     \<Rightarrow> (string option \<times> jsnum TAKEntity) list" where
  "getEntities_step params now entitiesMap event =
     (if (case map_of entitiesMap (uid event) of
            None \<Rightarrow> True
          | Some stored \<Rightarrow> date_gt (time event) (lastUpdate stored))
      then
        (let entity = toEntity now event in
         if (case teams params of None \<Rightarrow> False | Some ts \<Rightarrow> team entity \<notin> set ts)
         then entitiesMap
         else if (case roles params of None \<Rightarrow> False | Some rs \<Rightarrow> role entity \<notin> set rs)
         then entitiesMap
         else AList.update (uid event) entity entitiesMap)
      else entitiesMap)"

definition getEntities :: "entity_params \<Rightarrow> int \<Rightarrow> CotEvent list \<Rightarrow> jsnum TAKEntity list" where
  "getEntities params now events = map snd (foldl (getEntities_step params now) [] events)"

text \<open>\<^verbatim>\<open>getEntity\<close>, after the event has been fetched and decoded.\<close>

definition getEntity :: "(string \<Rightarrow> jsdate) \<Rightarrow> int \<Rightarrow> raw_event \<Rightarrow> js_error + jsnum TAKEntity" where
  "getEntity Date_parse now eventData =
     (case parseCotEvent Date_parse eventData of
        Inl e \<Rightarrow> Inl e
      | Inr event \<Rightarrow> Inr (toEntity now event))"

text \<open>Two reports of one entity with the same time and different positions.\<close>

definition report_a :: CotEvent where
  "report_a = \<lparr> uid = Some ''U1'', type = Some ''a-f-G'', time = Date 5000, start = Date 5000,
                 stale = Date 9000, how = Some ''m-g'',
                 point = \<lparr> lat = Fin 1, lon = Fin 2, hae = Fin 10, ce = Fin 5, le = Fin 5 \<rparr>,
                 detail = None \<rparr>"

definition report_b :: CotEvent where
  "report_b = report_a \<lparr> point := \<lparr> lat = Fin 3, lon = Fin 4, hae = Fin 10, ce = Fin 5, le = Fin 5 \<rparr> \<rparr>"

definition report_c :: CotEvent where
  "report_c = report_a \<lparr> time := Date 7000 \<rparr>"

definition no_filter :: entity_params where
  "no_filter = \<lparr> teams = None, roles = None \<rparr>"

text \<open>Decoded elements used as concrete inputs; the date parser of these runs accepts no text.\<close>

definition Date_parse_none :: "string \<Rightarrow> jsdate" where
  "Date_parse_none s = InvalidDate"

definition raw_good :: raw_event where
  "raw_good = \<lparr> raw_uid = Some ''U1'', raw_type = Some ''a-f-G-U-C'',
                 raw_time = JNum (Fin 5000), raw_start = JNum (Fin 5000),
                 raw_stale = JNum (Fin 9000), raw_how = Some ''m-g'',
                 raw_point = Some \<lparr> raw_lat = JStr ''37.7749'', raw_lon = JStr ''-122.4194'',
                                     raw_hae = JNum (Fin 12), raw_ce = JStr ''9.5'',
                                     raw_le = JUndefined \<rparr>,
                 raw_detail = None \<rparr>"

definition raw_invalid :: raw_event where
  "raw_invalid = \<lparr> raw_uid = None, raw_type = None,
                    raw_time = JUndefined, raw_start = JUndefined,
                    raw_stale = JUndefined, raw_how = None,
                    raw_point = Some \<lparr> raw_lat = JStr ''95'', raw_lon = JUndefined,
                                        raw_hae = JUndefined, raw_ce = JUndefined,
                                        raw_le = JUndefined \<rparr>,
                    raw_detail = None \<rparr>"

definition raw_sentinel :: raw_event where
  "raw_sentinel = raw_good \<lparr> raw_point :=
       Some \<lparr> raw_lat = JStr ''37.7749'', raw_lon = JStr ''-122.4194'',
              raw_hae = JStr ''999999'', raw_ce = JStr ''999999'', raw_le = JNum (Fin 999999) \<rparr> \<rparr>"

definition raw_sea_level :: raw_event where
  "raw_sea_level = raw_good \<lparr> raw_point :=
       Some \<lparr> raw_lat = JStr ''37.7749'', raw_lon = JStr ''-122.4194'',
              raw_hae = JStr ''0'', raw_ce = JStr ''0'', raw_le = JUndefined \<rparr> \<rparr>"

section \<open>Geometry: the functions of \<^verbatim>\<open>@turf/turf\<close> the tools call\<close>

text \<open>
  The tools compute every distance and bearing with the turf library.  Its functions are
  written out here as the library defines them (\<^verbatim>\<open>@turf/helpers\<close>, \<^verbatim>\<open>@turf/distance\<close>,
  \<^verbatim>\<open>@turf/bearing\<close>), over the reals: the haversine formula on a sphere of radius
  6371008.8 m and the initial bearing of the great circle.  A position is GeoJSON's
  \<^verbatim>\<open>[lon, lat]\<close> in degrees; latitudes are taken within \<open>[-90, 90]\<close>, where the haversine
  term lies in \<open>[0, 1]\<close>.  The library computes in doubles: what depends on the last bit
  of a result, such as whether two distances computed in a different order of operations
  are equal, is not decided by these definitions.
\<close>

type_synonym position = "real \<times> real"

text \<open>\<^verbatim>\<open>x % y\<close> on numbers: the remainder of the division truncated towards zero.\<close>

definition js_rem :: "real \<Rightarrow> real \<Rightarrow> real" where
  "js_rem x y = x - y * of_int (if 0 \<le> x / y then \<lfloor>x / y\<rfloor> else \<lceil>x / y\<rceil>)"

text \<open>\<^verbatim>\<open>Math.atan2(y, x)\<close>, with the result in \<open>(-\<pi>, \<pi>]\<close>.\<close>

definition atan2 :: "real \<Rightarrow> real \<Rightarrow> real" where
  "atan2 y x =
     (if 0 < x then arctan (y / x)
      else if x < 0 then (if 0 \<le> y then arctan (y / x) + pi else arctan (y / x) - pi)
      else if 0 < y then pi / 2
      else if y < 0 then - (pi / 2)
      else 0)"


definition earthRadius :: real where
  "earthRadius = 63710088 / 10"

datatype units = Meters | Kilometers | Miles | Nauticalmiles

fun factors :: "units \<Rightarrow> real" where
  "factors Meters = earthRadius"
| "factors Kilometers = earthRadius / 1000"
| "factors Miles = earthRadius / (1609344 / 1000)"
| "factors Nauticalmiles = earthRadius / 1852"

definition degreesToRadians :: "real \<Rightarrow> real" where
  "degreesToRadians degrees = js_rem degrees 360 * pi / 180"

definition radiansToDegrees :: "real \<Rightarrow> real" where
  "radiansToDegrees radians = js_rem radians (2 * pi) * 180 / pi"

definition radiansToLength :: "real \<Rightarrow> units \<Rightarrow> real" where
  "radiansToLength radians u = radians * factors u"

definition turf_distance :: "position \<Rightarrow> position \<Rightarrow> units \<Rightarrow> real" where
  "turf_distance from to u =
     (let dLat = degreesToRadians (snd to - snd from);
          dLon = degreesToRadians (fst to - fst from);
          lat1 = degreesToRadians (snd from);
          lat2 = degreesToRadians (snd to);
          a = (sin (dLat / 2)) ^ 2 + (sin (dLon / 2)) ^ 2 * cos lat1 * cos lat2
      in radiansToLength (2 * atan2 (sqrt a) (sqrt (1 - a))) u)"

definition turf_bearing :: "position \<Rightarrow> position \<Rightarrow> real" where
  "turf_bearing start_pt end_pt =
     (let lon1 = degreesToRadians (fst start_pt);
          lon2 = degreesToRadians (fst end_pt);
          lat1 = degreesToRadians (snd start_pt);
          lat2 = degreesToRadians (snd end_pt);
          a = sin (lon2 - lon1) * cos lat2;
          b = cos lat1 * sin lat2 - sin lat1 * cos lat2 * cos (lon2 - lon1)
      in radiansToDegrees (atan2 a b))"

section \<open>\<^verbatim>\<open>tak_calculate_distance\<close>: one origin, one destination\<close>

text \<open>
  The handler's branch for a single destination, from the resolved coordinates
  \<^verbatim>\<open>[lat, lon]\<close> of both ends; \<^verbatim>\<open>params.units || 'meters'\<close> is the option's default.
\<close>

record distance_data =
  dd_distance :: real
  dd_units :: units
  dd_bearing :: real
  dd_backBearing :: real

definition calculateDistance :: "units option \<Rightarrow> real \<times> real \<Rightarrow> real \<times> real \<Rightarrow> distance_data" where
  "calculateDistance units_param fromCoords toCoords =
     (let u = (case units_param of None \<Rightarrow> Meters | Some v \<Rightarrow> v);
          fromPoint = (snd fromCoords, fst fromCoords);
          toPoint = (snd toCoords, fst toCoords);
          distance = turf_distance fromPoint toPoint u;
          bearing = turf_bearing fromPoint toPoint
      in \<lparr> dd_distance = distance, dd_units = u, dd_bearing = bearing,
           dd_backBearing = js_rem (bearing + 180) 360 \<rparr>)"

text \<open>The spec's \<open>mod\<close> on angles: the remainder of the floored division, in \<open>[0, m)\<close>.\<close>

definition real_mod :: "real \<Rightarrow> real \<Rightarrow> real" where
  "real_mod x m = x - m * of_int \<lfloor>x / m\<rfloor>"

section \<open>\<^verbatim>\<open>tak_find_nearest\<close>: distances, cut-off, order, limit\<close>






















section \<open>\<^verbatim>\<open>tak_create_geofence\<close>\<close>

text \<open>
  \<^verbatim>\<open>turf.destination\<close> and \<^verbatim>\<open>turf.circle\<close> (64 steps) as the library defines them; a
  polygon is its outer ring.
\<close>

definition lengthToRadians :: "real \<Rightarrow> units \<Rightarrow> real" where
  "lengthToRadians d u = d / factors u"

definition turf_destination :: "position \<Rightarrow> real \<Rightarrow> real \<Rightarrow> position" where
  "turf_destination origin d bearing =
     (let longitude1 = degreesToRadians (fst origin);
          latitude1 = degreesToRadians (snd origin);
          bearingRad = degreesToRadians bearing;
          radians = lengthToRadians d Kilometers;
          latitude2 = arcsin (sin latitude1 * cos radians
                              + cos latitude1 * sin radians * cos bearingRad);
          longitude2 = longitude1
                       + atan2 (sin bearingRad * sin radians * cos latitude1)
                               (cos radians - sin latitude1 * sin latitude2)
      in (radiansToDegrees longitude2, radiansToDegrees latitude2))"

datatype geometry = Polygon "position list"

definition turf_circle :: "position \<Rightarrow> real \<Rightarrow> geometry" where
  "turf_circle center radius_km =
     (let coordinates = map (\<lambda>i. turf_destination center radius_km (real i * (- 360) / 64))
                            [0..<64]
      in Polygon (coordinates @ [hd coordinates]))"

record dwell_trigger =
  dwell_enabled :: "bool option"
  dwell_duration :: "real option"

record trigger_params =
  onEntry :: "bool option"
  onExit :: "bool option"
  onDwell :: "dwell_trigger option"

record shape_params =
  shape_type :: string
  center :: "(real \<times> real) option"
  radius :: "real option"
  vertices :: "(real \<times> real) list option"
  width :: "real option"
  height :: "real option"

record geofence_params =
  gp_name :: string
  gp_shape :: shape_params
  gp_triggers :: "trigger_params option"
  gp_monitorTypes :: "string list option"
  gp_alertLevel :: "string option"
  gp_active :: "bool option"

record geofence =
  gf_name :: string
  gf_type :: string
  gf_geometry :: geometry
  gf_triggers :: trigger_params
  gf_monitorTypes :: "string list"
  gf_alertLevel :: string
  gf_active :: bool

text \<open>
  The \<^verbatim>\<open>switch\<close> on the shape type.  \<^verbatim>\<open>!x\<close> on a number is true when it is absent or
  zero; a coordinate pair \<^verbatim>\<open>[lat, lon]\<close> is truthy whenever present.
\<close>

definition rectangle_ring :: "position \<Rightarrow> real \<Rightarrow> real \<Rightarrow> position list" where
  "rectangle_ring rectCenter w h =
     (let bearing = 0;
          halfWidth = w / 2;
          halfHeight = h / 2;
          topLeft = turf_destination (turf_destination rectCenter (halfHeight / 1000) bearing)
                      (halfWidth / 1000) (bearing - 90);
          topRight = turf_destination (turf_destination rectCenter (halfHeight / 1000) bearing)
                       (halfWidth / 1000) (bearing + 90);
          bottomRight = turf_destination
                          (turf_destination rectCenter (halfHeight / 1000) (bearing + 180))
                          (halfWidth / 1000) (bearing + 90);
          bottomLeft = turf_destination
                         (turf_destination rectCenter (halfHeight / 1000) (bearing + 180))
                         (halfWidth / 1000) (bearing - 90)
      in [topLeft, topRight, bottomRight, bottomLeft, topLeft])"

definition geofence_geometry :: "shape_params \<Rightarrow> js_error + geometry" where
  "geofence_geometry s =
     (if shape_type s = ''circle'' then
        (case (center s, radius s) of
           (Some c, Some r) \<Rightarrow>
             if r = 0 then Inl (Error ''Circle geofence requires center and radius'')
             else Inr (turf_circle (snd c, fst c) (r / 1000))
         | _ \<Rightarrow> Inl (Error ''Circle geofence requires center and radius''))
      else if shape_type s = ''polygon'' then
        (case vertices s of
           None \<Rightarrow> Inl (Error ''Polygon geofence requires at least 3 vertices'')
         | Some vs \<Rightarrow>
             if length vs < 3
             then Inl (Error ''Polygon geofence requires at least 3 vertices'')
             else Inr (Polygon (map (\<lambda>v. (snd v, fst v)) vs @ [(snd (hd vs), fst (hd vs))])))
      else if shape_type s = ''rectangle'' then
        (case (center s, width s, height s) of
           (Some c, Some w, Some h) \<Rightarrow>
             if w = 0 \<or> h = 0
             then Inl (Error ''Rectangle geofence requires center, width, and height'')
             else Inr (Polygon (rectangle_ring (snd c, fst c) w h))
         | _ \<Rightarrow> Inl (Error ''Rectangle geofence requires center, width, and height''))
      else Inl (Error (''Unknown geofence shape: '' @ shape_type s)))"

text \<open>
  The handler: the geometry, the geofence object and the relay of the overlay to the
  server, whose outcome (\<open>relayed\<close>) is the network's.  An exception ends in the failure
  response, here the error itself.  The area and perimeter statistics and the styling of
  the overlay are left out.
\<close>

definition createGeofence :: "bool \<Rightarrow> geofence_params \<Rightarrow> js_error + geofence" where
  "createGeofence relayed params =
     (case geofence_geometry (gp_shape params) of
        Inl e \<Rightarrow> Inl e
      | Inr g \<Rightarrow>
          if relayed then
            Inr \<lparr> gf_name = gp_name params,
                  gf_type = shape_type (gp_shape params),
                  gf_geometry = g,
                  gf_triggers = (case gp_triggers params of
                                   None \<Rightarrow> \<lparr> onEntry = Some True, onExit = Some True,
                                              onDwell = None \<rparr>
                                 | Some t \<Rightarrow> t),
                  gf_monitorTypes = (case gp_monitorTypes params of
                                       None \<Rightarrow> [''a-*''] | Some ts \<Rightarrow> ts),
                  gf_alertLevel = text_or (gp_alertLevel params) ''medium'',
                  gf_active = (gp_active params \<noteq> Some False) \<rparr>
          else Inl (Error ''relay failed''))"

definition circle_request :: "real \<Rightarrow> geofence_params" where
  "circle_request r =
     \<lparr> gp_name = ''perimeter'',
       gp_shape = \<lparr> shape_type = ''circle'', center = Some (0, 0), radius = Some r,
                    vertices = None, width = None, height = None \<rparr>,
       gp_triggers = None, gp_monitorTypes = None, gp_alertLevel = None, gp_active = None \<rparr>"

definition rectangle_request :: "real \<Rightarrow> real \<Rightarrow> geofence_params" where
  "rectangle_request w h =
     \<lparr> gp_name = ''compound'',
       gp_shape = \<lparr> shape_type = ''rectangle'', center = Some (0, 0), radius = None,
                    vertices = None, width = Some w, height = Some h \<rparr>,
       gp_triggers = None, gp_monitorTypes = None, gp_alertLevel = None, gp_active = None \<rparr>"

section \<open>\<^verbatim>\<open>tak_analyze_movement\<close>\<close>

text \<open>
  The handler from the fetched events on.  An event of the track carries a valid time
  (milliseconds) and finite coordinates.  \<^verbatim>\<open>turf.length\<close> adds the distances of the
  segments of a line, \<^verbatim>\<open>turf.bbox\<close> is \<^verbatim>\<open>[minX, minY, maxX, maxY]\<close> and \<^verbatim>\<open>turf.center\<close>
  is the centre of the bounding box.
\<close>

record track_event =
  ev_time :: int
  ev_lat :: real
  ev_lon :: real
  ev_hae :: real

record track_position =
  p_time :: int
  p_lat :: real
  p_lon :: real
  p_alt :: real

definition turf_length :: "position list \<Rightarrow> units \<Rightarrow> real" where
  "turf_length coords u = (\<Sum>(a, b)\<leftarrow>zip coords (tl coords). turf_distance a b u)"

definition turf_bbox :: "position list \<Rightarrow> real \<times> real \<times> real \<times> real" where
  "turf_bbox coords =
     (Min (set (map fst coords)), Min (set (map snd coords)),
      Max (set (map fst coords)), Max (set (map snd coords)))"

definition turf_center :: "position list \<Rightarrow> position" where
  "turf_center coords =
     (case turf_bbox coords of (minX, minY, maxX, maxY) \<Rightarrow> ((minX + maxX) / 2, (minY + maxY) / 2))"

text \<open>The pairs \<^verbatim>\<open>(xs[i-1], xs[i])\<close> for \<^verbatim>\<open>i = 1 .. length - 1\<close>, in order.\<close>

definition consecutive :: "'a list \<Rightarrow> ('a \<times> 'a) list" where
  "consecutive xs = zip xs (tl xs)"

definition coord :: "track_position \<Rightarrow> position" where
  "coord p = (p_lon p, p_lat p)"

subsection \<open>Speed\<close>

record speed_analysis =
  averageSpeed :: real
  maxSpeed :: real
  minSpeed :: real
  totalDistance :: real

text \<open>The loop over the segments: the speeds pushed so far and the distance added up.\<close>

fun speed_loop :: "real list \<Rightarrow> real \<Rightarrow> (track_position \<times> track_position) list \<Rightarrow> real list \<times> real" where
  "speed_loop speeds totalDist [] = (speeds, totalDist)"
| "speed_loop speeds totalDist ((a, b) # rest) =
     (let distance = turf_distance (coord a) (coord b) Meters;
          timeDiff = real_of_int (p_time b - p_time a) / 1000
      in if timeDiff > 0
         then speed_loop (speeds @ [distance / timeDiff * (36 / 10)]) (totalDist + distance) rest
         else speed_loop speeds totalDist rest)"

definition speedAnalysis_of :: "track_position list \<Rightarrow> speed_analysis" where
  "speedAnalysis_of positions =
     (case speed_loop [] 0 (consecutive positions) of
        (speeds, totalDist) \<Rightarrow>
          \<lparr> averageSpeed = (if speeds \<noteq> [] then sum_list speeds / real (length speeds) else 0),
            maxSpeed = (if speeds \<noteq> [] then Max (set speeds) else 0),
            minSpeed = (if speeds \<noteq> [] then Min (set speeds) else 0),
            totalDistance = totalDist \<rparr>)"

subsection \<open>Pattern\<close>

record pattern_analysis =
  movementType :: string
  totalHeadingChange :: real
  pathLength :: real
  boundingBox :: "real \<times> real \<times> real \<times> real"

definition heading_change :: "real \<times> real \<Rightarrow> real" where
  "heading_change hs =
     (let change = snd hs - fst hs;
          change1 = (if change > 180 then change - 360 else change)
      in if change1 < - 180 then change1 + 360 else change1)"

definition patternAnalysis_of :: "track_position list \<Rightarrow> pattern_analysis" where
  "patternAnalysis_of positions =
     (let headings = map (\<lambda>(a, b). turf_bearing (coord a) (coord b)) (consecutive positions);
          headingChanges = map heading_change (consecutive headings);
          totalChange = sum_list headingChanges;
          isCircular = (\<bar>totalChange\<bar> > 300);
          coordinates = map coord positions
      in \<lparr> movementType = (if isCircular then ''circular'' else ''linear''),
           totalHeadingChange = totalChange,
           pathLength = turf_length coordinates Meters * 1000,
           boundingBox = turf_bbox coordinates \<rparr>)"

subsection \<open>Stops\<close>

record stop_candidate =
  cs_startTime :: int
  cs_location :: track_position
  cs_positions :: "track_position list"
  cs_endTime :: int

record stop =
  st_startTime :: int
  st_location :: track_position
  st_positions :: "track_position list"
  st_endTime :: int
  st_duration :: real
  st_center :: position

record stop_analysis =
  stops :: "stop list"
  totalStops :: nat
  totalStopTime :: real

definition stopThreshold :: real where
  "stopThreshold = 50"

definition stopDuration :: real where
  "stopDuration = 300"

definition finish_stop :: "stop_candidate \<Rightarrow> real \<Rightarrow> stop" where
  "finish_stop c duration =
     \<lparr> st_startTime = cs_startTime c, st_location = cs_location c,
       st_positions = cs_positions c, st_endTime = cs_endTime c,
       st_duration = duration,
       st_center = turf_center (map coord (cs_positions c)) \<rparr>"

text \<open>
  The detection loop with its two variables, \<^verbatim>\<open>currentStop\<close> and \<^verbatim>\<open>stops\<close>.  A candidate
  is looked at only in the \<^verbatim>\<open>else if (currentStop)\<close> branch, on a segment of at least the
  threshold; when the segments run out the loop just ends.
\<close>

fun stops_loop ::
  "stop_candidate option \<Rightarrow> stop list \<Rightarrow> (track_position \<times> track_position) list \<Rightarrow> stop list" where
  "stops_loop currentStop found [] = found"
| "stops_loop currentStop found ((a, b) # rest) =
     (if turf_distance (coord a) (coord b) Meters < stopThreshold then
        (let started = (case currentStop of
                          None \<Rightarrow> \<lparr> cs_startTime = p_time a, cs_location = a,
                                     cs_positions = [a], cs_endTime = p_time a \<rparr>
                        | Some c \<Rightarrow> c)
         in stops_loop
              (Some (started \<lparr> cs_positions := cs_positions started @ [b],
                               cs_endTime := p_time b \<rparr>))
              found rest)
      else
        (case currentStop of
           Some c \<Rightarrow>
             (let duration = real_of_int (cs_endTime c - cs_startTime c) / 1000
              in stops_loop None
                   (if duration \<ge> stopDuration then found @ [finish_stop c duration] else found)
                   rest)
         | None \<Rightarrow> stops_loop None found rest))"

definition stopAnalysis_of :: "track_position list \<Rightarrow> stop_analysis" where
  "stopAnalysis_of positions =
     (let found = stops_loop None [] (consecutive positions)
      in \<lparr> stops = found, totalStops = length found,
           totalStopTime = sum_list (map st_duration found) \<rparr>)"

subsection \<open>Anomalies\<close>

record anomaly =
  an_time :: int
  an_location :: track_position
  an_value :: real
  an_threshold :: real

record anomaly_analysis =
  anomalies :: "anomaly list"
  totalAnomalies :: nat

text \<open>
  The anomaly loop runs inside \<^verbatim>\<open>if (analysis.speedAnalysis)\<close>.  With no
  \<^verbatim>\<open>anomalyThreshold\<close> given the speed threshold is \<open>NaN\<close> and no comparison succeeds.
\<close>

fun anomaly_loop :: "real \<Rightarrow> (track_position \<times> track_position) list \<Rightarrow> anomaly list" where
  "anomaly_loop speedThreshold [] = []"
| "anomaly_loop speedThreshold ((a, b) # rest) =
     (let distance = turf_distance (coord a) (coord b) Meters;
          timeDiff = real_of_int (p_time b - p_time a) / 1000
      in if timeDiff > 0 \<and> distance / timeDiff * (36 / 10) > speedThreshold
         then \<lparr> an_time = p_time b, an_location = b,
                an_value = distance / timeDiff * (36 / 10),
                an_threshold = speedThreshold \<rparr> # anomaly_loop speedThreshold rest
         else anomaly_loop speedThreshold rest)"

definition anomalyAnalysis_of ::
  "real option \<Rightarrow> speed_analysis option \<Rightarrow> track_position list \<Rightarrow> anomaly_analysis" where
  "anomalyAnalysis_of anomalyThreshold speedAnalysis positions =
     (let found = (case speedAnalysis of
                     None \<Rightarrow> []
                   | Some sa \<Rightarrow>
                       (case anomalyThreshold of
                          None \<Rightarrow> []
                        | Some th \<Rightarrow> anomaly_loop (averageSpeed sa * (1 + th))
                                       (consecutive positions)))
      in \<lparr> anomalies = found, totalAnomalies = length found \<rparr>)"

subsection \<open>The handler\<close>

record movement_params =
  analysisType :: "string list option"
  anomalyThreshold :: "real option"

record analysis =
  dataPoints :: nat
  speedAnalysis :: "speed_analysis option"
  patternAnalysis :: "pattern_analysis option"
  stopAnalysis :: "stop_analysis option"
  anomalyAnalysis :: "anomaly_analysis option"

datatype movement_result = Insufficient nat | Analysed analysis

definition positions_of :: "track_event list \<Rightarrow> track_position list" where
  "positions_of events =
     map (\<lambda>event. \<lparr> p_time = ev_time event, p_lat = ev_lat event, p_lon = ev_lon event,
                     p_alt = ev_hae event \<rparr>)
       (sort_key ev_time events)"

definition analyzeMovement :: "movement_params \<Rightarrow> track_event list \<Rightarrow> movement_result" where
  "analyzeMovement params events =
     (if length events < 2 then Insufficient (length events)
      else
        (let positions = positions_of events;
             analysisTypes = (case analysisType params of
                                None \<Rightarrow> [''speed'', ''pattern''] | Some ts \<Rightarrow> ts);
             speedA = (if ''speed'' \<in> set analysisTypes
                       then Some (speedAnalysis_of positions) else None);
             patternA = (if ''pattern'' \<in> set analysisTypes
                         then Some (patternAnalysis_of positions) else None);
             stopA = (if ''stops'' \<in> set analysisTypes
                      then Some (stopAnalysis_of positions) else None);
             anomalyA = (if ''anomaly'' \<in> set analysisTypes
                         then Some (anomalyAnalysis_of (anomalyThreshold params) speedA positions)
                         else None)
         in Analysed \<lparr> dataPoints = length positions, speedAnalysis = speedA,
                        patternAnalysis = patternA, stopAnalysis = stopA,
                        anomalyAnalysis = anomalyA \<rparr>))"

text \<open>Tracks used as concrete inputs: events on the equator, \<open>k * \<pi>\<close> metres east of \<open>(0, 0)\<close>.\<close>

definition event_east :: "int \<Rightarrow> real \<Rightarrow> track_event" where
  "event_east t k = \<lparr> ev_time = t, ev_lat = 0, ev_lon = 180 * k / earthRadius, ev_hae = 0 \<rparr>"

definition slow_walk :: "track_event list" where
  "slow_walk = [event_east 0 0, event_east 300000 12, event_east 600000 24]"

definition sprint :: "track_event list" where
  "sprint = [event_east 0 0, event_east 1000 0, event_east 2000 1]"

definition select :: "string list \<Rightarrow> movement_params" where
  "select ts = \<lparr> analysisType = Some ts, anomalyThreshold = Some (8 / 10) \<rparr>"

text \<open>One section of the answer, absent when it was not computed.\<close>

definition section_of :: "(analysis \<Rightarrow> 'a option) \<Rightarrow> movement_result \<Rightarrow> 'a option" where
  "section_of part r = (case r of Insufficient n \<Rightarrow> None | Analysed a \<Rightarrow> part a)"

definition run_analysis :: "string list \<Rightarrow> real option \<Rightarrow> track_event list \<Rightarrow> movement_result" where
  "run_analysis selected threshold events =
     analyzeMovement \<lparr> analysisType = Some selected, anomalyThreshold = threshold \<rparr> events"

section \<open>Geofence evaluation\<close>

text \<open>
  Modelled from the spec: the geofence evaluator.  The repository creates geofences
  (\<^verbatim>\<open>tak_create_geofence\<close> stores the triggers and relays the shape) and a demo client
  calls a tool \<^verbatim>\<open>tak_check_geofence\<close>, but no code evaluates a geofence against
  position reports.  The state machine below follows section 4.4 of the specification:
  one state per (geofence, entity) pair, \<open>OUTSIDE\<close> or \<open>INSIDE\<close> with the entry time
  as dwell timer; entry on a report that lands inside the shape while its kind matches a
  monitored pattern; exit on a report that does not land inside; the entry and exit
  alerts fire if enabled; the dwell alert fires when the pair remains inside and the
  time since entry has reached the threshold, once per stay.  The containment test and
  the pattern match belong to the geometry library and are inputs here.  The flag
  \<open>dwellAlerted\<close> is the memory that "exactly once" needs; the specification names only
  \<open>inside\<close> and \<open>enteredAt\<close>.
\<close>

datatype alert = OnEntry | OnExit | OnDwell

record fence_triggers =
  entryEnabled :: bool
  exitEnabled :: bool
  dwellThreshold :: "int option"

record pair_state =
  inside :: bool
  enteredAt :: "int option"
  dwellAlerted :: bool

record report_view =
  observedAt :: int
  landsInside :: bool
  kindMatches :: bool

definition outside_state :: pair_state where
  "outside_state = \<lparr> inside = False, enteredAt = None, dwellAlerted = False \<rparr>"

text \<open>
  Modelled from the spec: the transition function of the absent evaluator, one position
  report against one geofence for one entity; it returns the new state of the pair and
  the alerts fired.
\<close>

definition evaluate :: "fence_triggers \<Rightarrow> pair_state \<Rightarrow> report_view \<Rightarrow> pair_state \<times> alert list" where
  "evaluate tr s r =
     (if \<not> inside s then
        (if landsInside r \<and> kindMatches r
         then (\<lparr> inside = True,
                 enteredAt = (if dwellThreshold tr \<noteq> None then Some (observedAt r) else None),
                 dwellAlerted = False \<rparr>,
               if entryEnabled tr then [OnEntry] else [])
         else (s, []))
      else if \<not> landsInside r then
        (outside_state, if exitEnabled tr then [OnExit] else [])
      else
        (case (dwellThreshold tr, enteredAt s) of
           (Some threshold, Some t0) \<Rightarrow>
             if \<not> dwellAlerted s \<and> observedAt r - t0 \<ge> threshold
             then (s \<lparr> dwellAlerted := True \<rparr>, [OnDwell])
             else (s, [])
         | _ \<Rightarrow> (s, [])))"

text \<open>
  Modelled from the spec: the absent evaluator run over the reports of one entity; per
  report, the state after it and its alerts.
\<close>

fun trace :: "fence_triggers \<Rightarrow> pair_state \<Rightarrow> report_view list \<Rightarrow> (pair_state \<times> alert list) list" where
  "trace tr s [] = []"
| "trace tr s (r # rs) = evaluate tr s r # trace tr (fst (evaluate tr s r)) rs"

text \<open>
  Modelled from the spec: the alert sequence the absent evaluator emits for one entity,
  starting outside.
\<close>

definition alerts :: "fence_triggers \<Rightarrow> report_view list \<Rightarrow> alert list" where
  "alerts tr rs = concat (map snd (trace tr outside_state rs))"

definition exit_only :: fence_triggers where
  "exit_only = \<lparr> entryEnabled = False, exitEnabled = True, dwellThreshold = None \<rparr>"

definition all_alerts :: fence_triggers where
  "all_alerts = \<lparr> entryEnabled = True, exitEnabled = True, dwellThreshold = Some 60 \<rparr>"

definition two_visits :: "report_view list" where
  "two_visits = [\<lparr> observedAt = 0, landsInside = True, kindMatches = True \<rparr>,
                 \<lparr> observedAt = 100, landsInside = True, kindMatches = True \<rparr>,
                 \<lparr> observedAt = 150, landsInside = True, kindMatches = True \<rparr>,
                 \<lparr> observedAt = 200, landsInside = False, kindMatches = True \<rparr>,
                 \<lparr> observedAt = 300, landsInside = True, kindMatches = True \<rparr>,
                 \<lparr> observedAt = 400, landsInside = True, kindMatches = True \<rparr>]"

definition in_and_out :: "report_view list" where
  "in_and_out = [\<lparr> observedAt = 0, landsInside = True, kindMatches = True \<rparr>,
                 \<lparr> observedAt = 100, landsInside = False, kindMatches = True \<rparr>]"


section \<open>Latest report wins\<close>

lemma lastUpdate_toEntity: "lastUpdate (toEntity now e) = time e"
  by (simp add: toEntity_def)

lemma step_empty:
  assumes "teams p = None" "roles p = None"
  shows "getEntities_step p now [] e = [(uid e, toEntity now e)]"
  using assms by (simp add: getEntities_step_def)

lemma step_single:
  assumes "teams p = None" "roles p = None" "uid e = u"
  shows "getEntities_step p now [(u, toEntity now w)] e =
           [(u, toEntity now (if date_gt (time e) (time w) then e else w))]"
  using assms by (simp add: getEntities_step_def lastUpdate_toEntity)

lemma date_gt_trans_le:
  assumes "date_gt a b" "\<not> date_gt c b" "c \<noteq> InvalidDate"
  shows "date_gt a c"
  using assms by (cases a; cases b; cases c) auto

lemma date_gt_irrefl: "\<not> date_gt a a"
  by (cases a) auto

lemma date_total:
  assumes "a \<noteq> InvalidDate" "b \<noteq> InvalidDate" "\<not> date_gt a b" "\<not> date_gt b a"
  shows "a = b"
  using assms by (cases a; cases b) auto

text \<open>
  The state of the loop after any non-empty run of reports of one entity: one entry, built
  from the report at some index \<open>i\<close> that no report is newer than and that is strictly
  newer than every report before it.
\<close>

lemma fold_same_uid:
  assumes nf: "teams p = None" "roles p = None"
    and ne: "evs \<noteq> []"
    and same: "\<forall>e\<in>set evs. uid e = u \<and> time e \<noteq> InvalidDate"
  shows "\<exists>i<length evs.
           foldl (getEntities_step p now) [] evs = [(u, toEntity now (evs ! i))] \<and>
           (\<forall>j<length evs. \<not> date_gt (time (evs ! j)) (time (evs ! i))) \<and>
           (\<forall>j<i. date_gt (time (evs ! i)) (time (evs ! j)))"
  using ne same
proof (induction evs rule: rev_induct)
  case Nil
  then show ?case by simp
next
  case (snoc e evs)
  show ?case
  proof (cases "evs = []")
    case True
    have "uid e = u" using snoc.prems by simp
    then show ?thesis using True step_empty [OF nf, of now e] by (simp add: date_gt_irrefl)
  next
    case False
    have same': "\<forall>x\<in>set evs. uid x = u \<and> time x \<noteq> InvalidDate" using snoc.prems by simp
    from snoc.IH [OF False same'] obtain i where i: "i < length evs"
      and st: "foldl (getEntities_step p now) [] evs = [(u, toEntity now (evs ! i))]"
      and mx: "\<forall>j<length evs. \<not> date_gt (time (evs ! j)) (time (evs ! i))"
      and fst: "\<forall>j<i. date_gt (time (evs ! i)) (time (evs ! j))"
      by blast
    have ue: "uid e = u" and ve: "time e \<noteq> InvalidDate" using snoc.prems by simp_all
    have valid: "\<And>j. j < length evs \<Longrightarrow> time (evs ! j) \<noteq> InvalidDate"
      using same' by simp
    have run: "foldl (getEntities_step p now) [] (evs @ [e]) =
                 [(u, toEntity now (if date_gt (time e) (time (evs ! i)) then e else evs ! i))]"
      using st step_single [OF nf ue, of now "evs ! i"] by simp
    show ?thesis
    proof (cases "date_gt (time e) (time (evs ! i))")
      case True
      have older: "\<And>j. j < length evs \<Longrightarrow> date_gt (time e) (time (evs ! j))"
        using date_gt_trans_le [OF True] mx valid by blast
      have a: "foldl (getEntities_step p now) [] (evs @ [e]) =
                 [(u, toEntity now ((evs @ [e]) ! length evs))]"
        using run True by simp
      have b: "\<forall>j<length (evs @ [e]). \<not> date_gt (time ((evs @ [e]) ! j)) (time ((evs @ [e]) ! length evs))"
      proof (intro allI impI)
        fix j assume "j < length (evs @ [e])"
        then consider "j < length evs" | "j = length evs" by fastforce
        then show "\<not> date_gt (time ((evs @ [e]) ! j)) (time ((evs @ [e]) ! length evs))"
        proof cases
          case 1
          then have "date_gt (time e) (time (evs ! j))" by (rule older)
          then have "\<not> date_gt (time (evs ! j)) (time e)"
            by (cases "time e"; cases "time (evs ! j)") auto
          then show ?thesis using 1 by (simp add: nth_append)
        next
          case 2
          then show ?thesis by (simp add: date_gt_irrefl)
        qed
      qed
      have c: "\<forall>j<length evs. date_gt (time ((evs @ [e]) ! length evs)) (time ((evs @ [e]) ! j))"
        using older by (simp add: nth_append)
      have "length evs < length (evs @ [e])" by simp
      then show ?thesis using a b c by blast
    next
      case False
      have a: "foldl (getEntities_step p now) [] (evs @ [e]) = [(u, toEntity now ((evs @ [e]) ! i))]"
        using run False i by (simp add: nth_append)
      have b: "\<forall>j<length (evs @ [e]). \<not> date_gt (time ((evs @ [e]) ! j)) (time ((evs @ [e]) ! i))"
      proof (intro allI impI)
        fix j assume "j < length (evs @ [e])"
        then consider "j < length evs" | "j = length evs" by fastforce
        then show "\<not> date_gt (time ((evs @ [e]) ! j)) (time ((evs @ [e]) ! i))"
        proof cases
          case 1
          then show ?thesis using mx i by (simp add: nth_append)
        next
          case 2
          then show ?thesis using False i by (simp add: nth_append)
        qed
      qed
      have c: "\<forall>j<i. date_gt (time ((evs @ [e]) ! i)) (time ((evs @ [e]) ! j))"
        using fst i by (simp add: nth_append)
      have "i < length (evs @ [e])" using i by simp
      then show ?thesis using a b c by blast
    qed
  qed
qed
text \<open>
  Claim C1 (as amended).  With no team or role filter, after any non-empty run of reports of
  one entity with valid times, \<^verbatim>\<open>getEntities\<close> returns exactly one entity, built from a
  report that no report of the run is newer than, namely the first delivered among those of
  maximal time (a report replaces the stored one only when strictly newer).  When reports of
  equal time are equal reports (so in particular under redelivery of duplicates), every
  reordering of the run gives the same result.
\<close>

theorem latest_report_wins:
  assumes "teams p = None" and "roles p = None" and "evs \<noteq> []"
    and "\<forall>e\<in>set evs. uid e = u \<and> time e \<noteq> InvalidDate"
  shows "(\<exists>i<length evs.
            getEntities p now evs = [toEntity now (evs ! i)] \<and>
            (\<forall>j<length evs. \<not> date_gt (time (evs ! j)) (time (evs ! i))) \<and>
            (\<forall>j<i. date_gt (time (evs ! i)) (time (evs ! j)))) \<and>
         (\<forall>evs'. mset evs' = mset evs \<and> inj_on time (set evs) \<longrightarrow>
            getEntities p now evs' = getEntities p now evs)"
proof (intro conjI allI impI)
  from fold_same_uid [OF assms, of now]
  show "\<exists>i<length evs.
            getEntities p now evs = [toEntity now (evs ! i)] \<and>
            (\<forall>j<length evs. \<not> date_gt (time (evs ! j)) (time (evs ! i))) \<and>
            (\<forall>j<i. date_gt (time (evs ! i)) (time (evs ! j)))"
    by (auto simp: getEntities_def)
next
  fix evs'
  assume a: "mset evs' = mset evs \<and> inj_on time (set evs)"
  then have seteq: "set evs' = set evs" by (metis set_mset_mset)
  have ne': "evs' \<noteq> []" using a assms(3) by auto
  have same': "\<forall>e\<in>set evs'. uid e = u \<and> time e \<noteq> InvalidDate"
    using assms(4) seteq by simp
  from fold_same_uid [OF assms, of now] obtain i where i: "i < length evs"
    and r: "foldl (getEntities_step p now) [] evs = [(u, toEntity now (evs ! i))]"
    and mx: "\<forall>j<length evs. \<not> date_gt (time (evs ! j)) (time (evs ! i))"
    by blast
  from fold_same_uid [OF assms(1,2) ne' same', of now] obtain k where k: "k < length evs'"
    and r': "foldl (getEntities_step p now) [] evs' = [(u, toEntity now (evs' ! k))]"
    and mx': "\<forall>j<length evs'. \<not> date_gt (time (evs' ! j)) (time (evs' ! k))"
    by blast
  have wi: "evs ! i \<in> set evs" using i by simp
  have wk: "evs' ! k \<in> set evs" using k seteq by (metis nth_mem)
  have n1: "\<not> date_gt (time (evs' ! k)) (time (evs ! i))"
    using mx wk by (metis in_set_conv_nth)
  have n2: "\<not> date_gt (time (evs ! i)) (time (evs' ! k))"
    using mx' wi seteq by (metis in_set_conv_nth)
  have "time (evs ! i) = time (evs' ! k)"
    using date_total [OF _ _ n2 n1] assms(4) wi wk by blast
  then have "evs ! i = evs' ! k"
    using a wi wk by (meson inj_onD)
  then show "getEntities p now evs' = getEntities p now evs"
    using r r' by (simp add: getEntities_def)
qed

theorem latest_report_wins_witness:
  "teams no_filter = None \<and> roles no_filter = None \<and> [report_a, report_c] \<noteq> [] \<and>
   uid report_a = Some ''U1'' \<and> uid report_c = Some ''U1'' \<and>
   time report_a \<noteq> InvalidDate \<and> time report_c \<noteq> InvalidDate \<and>
   getEntities no_filter 6000 [report_a, report_c] = [toEntity 6000 report_c] \<and>
   getEntities no_filter 6000 [report_c, report_a] = getEntities no_filter 6000 [report_a, report_c]"
proof -
  have h1: "teams no_filter = None" and h2: "roles no_filter = None"
    by (simp_all add: no_filter_def)
  have h3: "[report_a, report_c] \<noteq> []" by simp
  have h4: "\<forall>e\<in>set [report_a, report_c]. uid e = Some ''U1'' \<and> time e \<noteq> InvalidDate"
    by (simp add: report_a_def report_c_def)
  note T = latest_report_wins [OF h1 h2 h3 h4, of 6000]
  from conjunct1 [OF T] obtain i where i: "i < length [report_a, report_c]"
    and r: "getEntities no_filter 6000 [report_a, report_c] = [toEntity 6000 ([report_a, report_c] ! i)]"
    and mx: "\<forall>j<length [report_a, report_c].
               \<not> date_gt (time ([report_a, report_c] ! j)) (time ([report_a, report_c] ! i))"
    by blast
  have "i \<noteq> 0"
  proof
    assume "i = 0"
    moreover have "(1::nat) < length [report_a, report_c]" by simp
    ultimately have "\<not> date_gt (time ([report_a, report_c] ! 1)) (time ([report_a, report_c] ! 0))"
      using mx by blast
    then show False by (simp add: report_a_def report_c_def)
  qed
  with i have "i = 1" by simp
  with r have c1: "getEntities no_filter 6000 [report_a, report_c] = [toEntity 6000 report_c]"
    by simp
  have inj: "inj_on time (set [report_a, report_c])"
    by (simp add: report_a_def report_c_def)
  have "mset [report_c, report_a] = mset [report_a, report_c]" by simp
  with conjunct2 [OF T] inj have c2: "getEntities no_filter 6000 [report_c, report_a] =
                        getEntities no_filter 6000 [report_a, report_c]"
    by blast
  show ?thesis using h1 h2 h3 h4 c1 c2 by simp
qed

text \<open>
  Claim C1 as stated fails: two reports of one entity with the same observation time and
  different positions are a run whose final state depends on the order of delivery.
\<close>

theorem delivery_order_counterexample:
  "uid report_a = uid report_b \<and> time report_a = time report_b \<and>
   mset [report_b, report_a] = mset [report_a, report_b] \<and>
   getEntities no_filter 6000 [report_a, report_b] = [toEntity 6000 report_a] \<and>
   getEntities no_filter 6000 [report_b, report_a] = [toEntity 6000 report_b] \<and>
   toEntity 6000 report_a \<noteq> toEntity 6000 report_b"
  by (simp add: getEntities_def getEntities_step_def no_filter_def report_a_def report_b_def
      toEntity_def)
section \<open>Decoding an event\<close>

lemmas parseFloat_eval =
  parseFloat_str_def parse_unsigned_def is_digit_def is_space_def exponent_part_def scale10_def

text \<open>
  Claim C3 (as amended).  \<^verbatim>\<open>parseCotEvent\<close> fails exactly when the decoded element has no
  \<^verbatim>\<open>point\<close> child, and then with the \<^verbatim>\<open>TypeError\<close> of the property read.  In every other
  case it returns an event: identifier and kind are passed through as they are (absent
  included), the times are whatever \<^verbatim>\<open>new Date\<close> makes of the attributes, and latitude and
  longitude are \<^verbatim>\<open>parseFloat\<close> of the attributes, with no range check.
\<close>

theorem parseCotEvent_fails_only_without_point:
  "(raw_point ev = None \<longrightarrow> parseCotEvent dp ev = Inl TypeError) \<and>
   (\<forall>p. raw_point ev = Some p \<longrightarrow>
      (\<exists>e. parseCotEvent dp ev = Inr e \<and>
           uid e = raw_uid ev \<and> type e = raw_type ev \<and>
           time e = new_Date dp (raw_time ev) \<and>
           lat (point e) = parseFloat (raw_lat p) \<and>
           lon (point e) = parseFloat (raw_lon p)))"
  by (simp add: parseCotEvent_def)

theorem parseCotEvent_fails_only_without_point_witness:
  "raw_point raw_good \<noteq> None \<and>
   (\<exists>e. parseCotEvent Date_parse_none raw_good = Inr e \<and>
        uid e = Some ''U1'' \<and> type e = Some ''a-f-G-U-C'' \<and> time e = Date 5000 \<and>
        lat (point e) = Fin (377749 / 10000) \<and> lon (point e) = Fin (- (1224194 / 10000))) \<and>
   parseCotEvent Date_parse_none (raw_good \<lparr> raw_point := None \<rparr>) = Inl TypeError"
proof -
  have p: "raw_point raw_good = Some \<lparr> raw_lat = JStr ''37.7749'', raw_lon = JStr ''-122.4194'',
             raw_hae = JNum (Fin 12), raw_ce = JStr ''9.5'', raw_le = JUndefined \<rparr>"
    by (simp add: raw_good_def)
  have f1: "parseFloat (JStr ''37.7749'') = Fin (377749 / 10000)"
    by (simp add: parseFloat_eval)
  have f2: "parseFloat (JStr ''-122.4194'') = Fin (- (1224194 / 10000))"
    by (simp add: parseFloat_eval)
  have t: "new_Date Date_parse_none (raw_time raw_good) = Date 5000"
    by (simp add: raw_good_def time_clip_def)
  have u: "raw_uid raw_good = Some ''U1''" "raw_type raw_good = Some ''a-f-G-U-C''"
    by (simp_all add: raw_good_def)
  have n: "raw_point (raw_good \<lparr> raw_point := None \<rparr>) = None" by simp
  from parseCotEvent_fails_only_without_point [of raw_good Date_parse_none] p
  have "\<exists>e. parseCotEvent Date_parse_none raw_good = Inr e \<and>
           uid e = raw_uid raw_good \<and> type e = raw_type raw_good \<and>
           time e = new_Date Date_parse_none (raw_time raw_good) \<and>
           lat (point e) = parseFloat (JStr ''37.7749'') \<and>
           lon (point e) = parseFloat (JStr ''-122.4194'')"
    by simp
  then have a: "\<exists>e. parseCotEvent Date_parse_none raw_good = Inr e \<and>
        uid e = Some ''U1'' \<and> type e = Some ''a-f-G-U-C'' \<and> time e = Date 5000 \<and>
        lat (point e) = Fin (377749 / 10000) \<and> lon (point e) = Fin (- (1224194 / 10000))"
    by (simp only: f1 f2 t u)
  from parseCotEvent_fails_only_without_point [of "raw_good \<lparr> raw_point := None \<rparr>" Date_parse_none] n
  have b: "parseCotEvent Date_parse_none (raw_good \<lparr> raw_point := None \<rparr>) = Inl TypeError"
    by blast
  show ?thesis using p a b by simp
qed

text \<open>
  Claim C3 as stated fails: an element without identifier, kind and times, with no
  longitude and with latitude 95, is decoded successfully into an event that has no
  identifier, an invalid date, latitude 95 and longitude \<open>NaN\<close>.
\<close>

theorem invalid_report_accepted_counterexample:
  "raw_uid raw_invalid = None \<and> raw_type raw_invalid = None \<and>
   raw_time raw_invalid = JUndefined \<and>
   (\<exists>e. parseCotEvent Date_parse_none raw_invalid = Inr e \<and>
        uid e = None \<and> type e = None \<and> time e = InvalidDate \<and>
        lat (point e) = Fin 95 \<and> lon (point e) = NaN)"
  by (simp add: parseCotEvent_def raw_invalid_def parseFloat_eval)
text \<open>
  Claim C4 (as amended).  In the decoded event an altitude, circular error or linear error
  whose attribute is absent or not numeric is the number 999999, and one that parses to a
  number other than zero is that number (999999 itself included).  In the entity built
  from the event the altitude is absent exactly when the event carries 999999, whether
  defaulted or sent by the stream, and is the event's number otherwise; the two errors are
  not part of the entity.
\<close>

theorem unknown_is_sentinel_in_event_absent_in_entity:
  assumes "raw_point ev = Some p"
  shows "\<exists>e ent. parseCotEvent dp ev = Inr e \<and> getEntity dp now ev = Inr ent \<and>
           (parseFloat (raw_hae p) = NaN \<longrightarrow>
              hae (point e) = Fin 999999 \<and> loc_alt (location ent) = None) \<and>
           (truthy (parseFloat (raw_hae p)) \<and> parseFloat (raw_hae p) \<noteq> Fin 999999 \<longrightarrow>
              hae (point e) = parseFloat (raw_hae p) \<and>
              loc_alt (location ent) = Some (parseFloat (raw_hae p))) \<and>
           (parseFloat (raw_ce p) = NaN \<longrightarrow> ce (point e) = Fin 999999) \<and>
           (truthy (parseFloat (raw_ce p)) \<longrightarrow> ce (point e) = parseFloat (raw_ce p)) \<and>
           (parseFloat (raw_le p) = NaN \<longrightarrow> le (point e) = Fin 999999) \<and>
           (truthy (parseFloat (raw_le p)) \<longrightarrow> le (point e) = parseFloat (raw_le p)) \<and>
           (parseFloat (raw_hae p) = Fin 999999 \<longrightarrow>
              hae (point e) = Fin 999999 \<and> loc_alt (location ent) = None) \<and>
           (hae (point e) = Fin 999999 \<longrightarrow> loc_alt (location ent) = None) \<and>
           (hae (point e) \<noteq> Fin 999999 \<longrightarrow> loc_alt (location ent) = Some (hae (point e)))"
  using assms
  by (auto simp: parseCotEvent_def getEntity_def toEntity_def js_or_def js_neq_def
      unknown_sentinel_def)

theorem unknown_is_sentinel_in_event_absent_in_entity_witness:
  "raw_point raw_good \<noteq> None \<and>
   (\<exists>e ent. parseCotEvent Date_parse_none raw_good = Inr e \<and>
        getEntity Date_parse_none 6000 raw_good = Inr ent \<and>
        hae (point e) = Fin 12 \<and> loc_alt (location ent) = Some (Fin 12) \<and>
        ce (point e) = Fin (19 / 2) \<and> le (point e) = Fin 999999) \<and>
   raw_point raw_sentinel \<noteq> None \<and>
   (\<exists>e ent. parseCotEvent Date_parse_none raw_sentinel = Inr e \<and>
        getEntity Date_parse_none 6000 raw_sentinel = Inr ent \<and>
        hae (point e) = Fin 999999 \<and> loc_alt (location ent) = None \<and>
        ce (point e) = Fin 999999 \<and> le (point e) = Fin 999999)"
proof -
  have p: "raw_point raw_good = Some \<lparr> raw_lat = JStr ''37.7749'', raw_lon = JStr ''-122.4194'',
             raw_hae = JNum (Fin 12), raw_ce = JStr ''9.5'', raw_le = JUndefined \<rparr>"
    by (simp add: raw_good_def)
  have f: "parseFloat_str ''9.5'' = Fin (19 / 2)"
    by (simp add: parseFloat_eval)
  from unknown_is_sentinel_in_event_absent_in_entity [OF p, of Date_parse_none 6000]
  have a: "\<exists>e ent. parseCotEvent Date_parse_none raw_good = Inr e \<and>
        getEntity Date_parse_none 6000 raw_good = Inr ent \<and>
        hae (point e) = Fin 12 \<and> loc_alt (location ent) = Some (Fin 12) \<and>
        ce (point e) = Fin (19 / 2) \<and> le (point e) = Fin 999999"
    by (auto simp: f)
  have q: "raw_point raw_sentinel = Some \<lparr> raw_lat = JStr ''37.7749'', raw_lon = JStr ''-122.4194'',
             raw_hae = JStr ''999999'', raw_ce = JStr ''999999'', raw_le = JNum (Fin 999999) \<rparr>"
    by (simp add: raw_sentinel_def)
  have g: "parseFloat_str ''999999'' = Fin 999999"
    by (simp add: parseFloat_eval)
  from unknown_is_sentinel_in_event_absent_in_entity [OF q, of Date_parse_none 6000]
  have b: "\<exists>e ent. parseCotEvent Date_parse_none raw_sentinel = Inr e \<and>
        getEntity Date_parse_none 6000 raw_sentinel = Inr ent \<and>
        hae (point e) = Fin 999999 \<and> loc_alt (location ent) = None \<and>
        ce (point e) = Fin 999999 \<and> le (point e) = Fin 999999"
    by (auto simp: g)
  show ?thesis using p q a b by simp
qed

text \<open>
  Claim C4 as stated fails: for an element whose \<^verbatim>\<open>point\<close> has no \<^verbatim>\<open>ce\<close>, \<^verbatim>\<open>le\<close> and \<^verbatim>\<open>hae\<close>
  attributes the decoded event carries the concrete number 999999 in all three fields.
\<close>

theorem unknown_accuracy_is_a_number_counterexample:
  "(\<exists>p. raw_point raw_invalid = Some p \<and>
        raw_hae p = JUndefined \<and> raw_ce p = JUndefined \<and> raw_le p = JUndefined) \<and>
   (\<exists>e. parseCotEvent Date_parse_none raw_invalid = Inr e \<and>
        hae (point e) = Fin 999999 \<and> ce (point e) = Fin 999999 \<and> le (point e) = Fin 999999)"
  by (simp add: parseCotEvent_def raw_invalid_def js_or_def unknown_sentinel_def)

text \<open>
  The defaulting idiom also catches a genuine zero: an altitude attribute \<open>0\<close> is decoded
  to 999999 and reported as absent in the entity.
\<close>

lemma zero_altitude_reported_unknown:
  "\<exists>e ent. parseCotEvent Date_parse_none raw_sea_level = Inr e \<and>
      getEntity Date_parse_none 6000 raw_sea_level = Inr ent \<and>
      hae (point e) = Fin 999999 \<and> ce (point e) = Fin 999999 \<and>
      loc_alt (location ent) = None"
  by (simp add: parseCotEvent_def getEntity_def toEntity_def raw_sea_level_def raw_good_def
      js_or_def js_neq_def unknown_sentinel_def parseFloat_eval)
section \<open>Distance and bearing\<close>

lemma js_rem_small:
  assumes "\<bar>x\<bar> < y"
  shows "js_rem x y = x"
proof -
  have y: "0 < y" using assms by linarith
  show ?thesis
  proof (cases "0 \<le> x / y")
    case True
    then have "0 \<le> x" using y by (simp add: zero_le_divide_iff)
    then have "x / y < 1" using assms y by simp
    then have "\<lfloor>x / y\<rfloor> = 0" using True by (simp add: floor_eq_iff)
    then show ?thesis using True by (simp add: js_rem_def)
  next
    case False
    then have "x < 0" using y by (simp add: zero_le_divide_iff not_le)
    then have "- 1 < x / y" using assms y by (simp add: pos_less_divide_eq)
    then have "\<lceil>x / y\<rceil> = 0" using False by (simp add: ceiling_eq_iff)
    then show ?thesis using False by (simp add: js_rem_def)
  qed
qed


lemma atan2_bounds: "- pi < atan2 y x \<and> atan2 y x \<le> pi"
proof -
  have lo: "- (pi / 2) < arctan (y / x)" and hi: "arctan (y / x) < pi / 2"
    using arctan_lbound [of "y / x"] arctan_ubound [of "y / x"] by blast+
  have pos: "0 < pi" by simp
  consider (right) "0 < x" | (upper) "x < 0" "0 \<le> y" | (lower) "x < 0" "y < 0"
    | (axis) "x = 0"
    by linarith
  then show ?thesis
  proof cases
    case right
    then have "atan2 y x = arctan (y / x)" by (simp add: atan2_def)
    then show ?thesis using lo hi pos by linarith
  next
    case upper
    then have "y / x \<le> 0" by (simp add: divide_nonneg_neg)
    then have "arctan (y / x) \<le> 0" by (simp only: arctan_le_zero_iff)
    moreover have "atan2 y x = arctan (y / x) + pi" using upper by (simp add: atan2_def)
    ultimately show ?thesis using lo pos by linarith
  next
    case lower
    then have "0 < y / x" by (simp add: divide_neg_neg)
    then have "0 < arctan (y / x)" by (simp only: zero_less_arctan_iff)
    moreover have "atan2 y x = arctan (y / x) - pi" using lower by (simp add: atan2_def)
    ultimately show ?thesis using hi pos by linarith
  next
    case axis
    then have "atan2 y x = pi / 2 \<or> atan2 y x = - (pi / 2) \<or> atan2 y x = 0"
      by (simp add: atan2_def)
    then show ?thesis using pos by linarith
  qed
qed

lemma turf_bearing_bounds: "- 180 < turf_bearing p q \<and> turf_bearing p q \<le> 180"
proof -
  define r where "r = atan2 (sin (degreesToRadians (fst q) - degreesToRadians (fst p)) * cos (degreesToRadians (snd q)))
     (cos (degreesToRadians (snd p)) * sin (degreesToRadians (snd q)) -
      sin (degreesToRadians (snd p)) * cos (degreesToRadians (snd q)) *
      cos (degreesToRadians (fst q) - degreesToRadians (fst p)))"
  have b: "- pi < r" "r \<le> pi" using atan2_bounds [of _ _] by (simp_all add: r_def)
  then have "\<bar>r\<bar> < 2 * pi" using pi_gt_zero by linarith
  then have "js_rem r (2 * pi) = r" by (rule js_rem_small)
  then have eq: "turf_bearing p q = r * 180 / pi"
    by (simp add: turf_bearing_def radiansToDegrees_def Let_def r_def)
  have "- 180 < r * 180 / pi" using b(1) pi_gt_zero by (simp add: pos_less_divide_eq)
  moreover have "r * 180 / pi \<le> 180" using b(2) pi_gt_zero by (simp add: pos_divide_le_eq)
  ultimately show ?thesis using eq by simp
qed

lemma js_rem_nonneg:
  assumes "0 \<le> x" "0 < y"
  shows "js_rem x y = real_mod x y"
  using assms by (simp add: js_rem_def real_mod_def)

lemma degreesToRadians_small:
  assumes "\<bar>d\<bar> < 360"
  shows "degreesToRadians d = d * pi / 180"
  using js_rem_small [OF assms] by (simp add: degreesToRadians_def)

lemma radiansToDegrees_small:
  assumes "\<bar>r\<bar> < 2 * pi"
  shows "radiansToDegrees r = r * 180 / pi"
  using js_rem_small [OF assms] by (simp add: radiansToDegrees_def)

text \<open>Along a meridian the bearing is due north one way and due south the other.\<close>

lemma bearing_along_meridian:
  assumes "- 90 \<le> lat1" "lat1 < lat2" "lat2 \<le> 90" "lat2 - lat1 < 180"
  shows "turf_bearing (l, lat1) (l, lat2) = 0" and "turf_bearing (l, lat2) (l, lat1) = 180"
proof -
  define f1 where "f1 = lat1 * pi / 180"
  define f2 where "f2 = lat2 * pi / 180"
  have r1: "degreesToRadians lat1 = f1" and r2: "degreesToRadians lat2 = f2"
    using assms by (simp_all add: degreesToRadians_small f1_def f2_def)
  have d: "f2 - f1 = (lat2 - lat1) * pi / 180"
    by (simp add: f1_def f2_def algebra_simps diff_divide_distrib)
  have p1: "0 < (lat2 - lat1) * pi / 180" using assms by simp
  have "(lat2 - lat1) * pi < 180 * pi"
    using assms(4) pi_gt_zero by (simp only: mult_less_cancel_right_pos)
  then have p2: "(lat2 - lat1) * pi / 180 < pi" by simp
  have rng: "0 < f2 - f1" "f2 - f1 < pi"
    using p1 p2 by (simp_all only: d)
  have pos: "0 < sin (f2 - f1)" using rng by (rule sin_gt_zero)
  have b1: "cos f1 * sin f2 - sin f1 * cos f2 = sin (f2 - f1)"
    by (simp add: sin_diff)
  have b2: "cos f2 * sin f1 - sin f2 * cos f1 = - sin (f2 - f1)"
    by (simp add: sin_diff)
  have "turf_bearing (l, lat1) (l, lat2) = radiansToDegrees (atan2 0 (sin (f2 - f1)))"
    by (simp add: turf_bearing_def Let_def r1 r2 b1)
  also have "\<dots> = radiansToDegrees 0" using pos by (simp add: atan2_def)
  also have "\<dots> = 0" by (simp add: radiansToDegrees_small)
  finally show "turf_bearing (l, lat1) (l, lat2) = 0" .
  have "turf_bearing (l, lat2) (l, lat1) = radiansToDegrees (atan2 0 (- sin (f2 - f1)))"
    by (simp add: turf_bearing_def Let_def r1 r2 b2)
  also have "\<dots> = radiansToDegrees pi" using pos by (simp add: atan2_def)
  also have "\<dots> = 180" by (simp add: radiansToDegrees_small)
  finally show "turf_bearing (l, lat2) (l, lat1) = 180" .
qed

text \<open>From \<open>(0\<degree>, 0\<degree>)\<close> to \<open>(45\<degree>N, 90\<degree>E)\<close> and back.\<close>

lemma bearing_out: "turf_bearing (0, 0) (90, 45) = 45"
proof -
  have r: "degreesToRadians 90 = pi / 2" "degreesToRadians 45 = pi / 4" "degreesToRadians 0 = 0"
    by (simp_all add: degreesToRadians_small)
  have s: "0 < sqrt 2 / 2" by simp
  have "turf_bearing (0, 0) (90, 45) = radiansToDegrees (atan2 (sqrt 2 / 2) (sqrt 2 / 2))"
    by (simp add: turf_bearing_def Let_def r sin_45 cos_45)
  also have "atan2 (sqrt 2 / 2) (sqrt 2 / 2) = pi / 4"
    using s by (simp add: atan2_def arctan_one)
  also have "radiansToDegrees (pi / 4) = 45"
    by (simp add: radiansToDegrees_small)
  finally show ?thesis .
qed

lemma bearing_back: "turf_bearing (90, 45) (0, 0) = - 90"
proof -
  have r: "degreesToRadians 90 = pi / 2" "degreesToRadians 45 = pi / 4" "degreesToRadians 0 = 0"
    by (simp_all add: degreesToRadians_small)
  have "turf_bearing (90, 45) (0, 0) = radiansToDegrees (atan2 (- 1) 0)"
    by (simp add: turf_bearing_def Let_def r)
  also have "atan2 (- 1) 0 = - (pi / 2)" by (simp add: atan2_def)
  also have "radiansToDegrees (- (pi / 2)) = - 90"
    by (simp add: radiansToDegrees_small)
  finally show ?thesis .
qed

text \<open>
  Claim C7 (as amended).  The back-bearing reported by \<^verbatim>\<open>tak_calculate_distance\<close> is
  \<open>(bearing + 180) mod 360\<close> and lies in \<open>[0, 360)\<close>.  The forward bearings of the two
  directions are 180 degrees apart for two points of one meridian whose latitudes differ
  by at least a millionth of a degree (0 northwards, 180 southwards); in general they are
  not.
\<close>

theorem back_bearing_is_bearing_plus_180:
  "dd_backBearing (calculateDistance u a b) =
     real_mod (dd_bearing (calculateDistance u a b) + 180) 360 \<and>
   0 \<le> dd_backBearing (calculateDistance u a b) \<and>
   dd_backBearing (calculateDistance u a b) < 360 \<and>
   (snd a = snd b \<and> - 90 \<le> fst a \<and> fst a + 1 / 1000000 \<le> fst b \<and> fst b \<le> 90 \<and>
    fst b - fst a < 180 \<longrightarrow>
      dd_bearing (calculateDistance u a b) = 0 \<and> dd_bearing (calculateDistance u b a) = 180)"
proof (intro conjI impI)
  have nn: "0 \<le> turf_bearing (snd a, fst a) (snd b, fst b) + 180"
    and lt: "turf_bearing (snd a, fst a) (snd b, fst b) + 180 \<le> 360"
    using turf_bearing_bounds [of "(snd a, fst a)" "(snd b, fst b)"] by linarith+
  show eq: "dd_backBearing (calculateDistance u a b) =
     real_mod (dd_bearing (calculateDistance u a b) + 180) 360"
    using nn by (simp add: calculateDistance_def Let_def js_rem_nonneg)
  define x where "x = dd_bearing (calculateDistance u a b) + 180"
  have x: "0 \<le> x" "x \<le> 360"
    using nn lt by (simp_all add: x_def calculateDistance_def Let_def)
  have fl: "real_of_int \<lfloor>x / 360\<rfloor> \<le> x / 360" "x / 360 < real_of_int \<lfloor>x / 360\<rfloor> + 1"
    by linarith+
  have "360 * real_of_int \<lfloor>x / 360\<rfloor> \<le> x" using fl(1) by (simp add: field_simps)
  then have "0 \<le> real_mod x 360" by (simp add: real_mod_def)
  moreover have "x < 360 * real_of_int \<lfloor>x / 360\<rfloor> + 360" using fl(2) by (simp add: field_simps)
  then have "real_mod x 360 < 360" by (simp add: real_mod_def)
  ultimately show "0 \<le> dd_backBearing (calculateDistance u a b)"
    and "dd_backBearing (calculateDistance u a b) < 360"
    using eq by (simp_all add: x_def)
next
  assume h: "snd a = snd b \<and> - 90 \<le> fst a \<and> fst a + 1 / 1000000 \<le> fst b \<and> fst b \<le> 90 \<and>
    fst b - fst a < 180"
  then have m: "- 90 \<le> fst a" "fst a < fst b" "fst b \<le> 90" "fst b - fst a < 180" by simp_all
  show "dd_bearing (calculateDistance u a b) = 0"
    using bearing_along_meridian(1) [OF m, of "snd b"] h by (simp add: calculateDistance_def Let_def)
  show "dd_bearing (calculateDistance u b a) = 180"
    using bearing_along_meridian(2) [OF m, of "snd b"] h by (simp add: calculateDistance_def Let_def)
qed

theorem back_bearing_is_bearing_plus_180_witness:
  "dd_bearing (calculateDistance None (10, 20) (30, 20)) = 0 \<and>
   dd_bearing (calculateDistance None (30, 20) (10, 20)) = 180 \<and>
   dd_backBearing (calculateDistance None (10, 20) (30, 20)) = 180 \<and>
   dd_backBearing (calculateDistance None (30, 20) (10, 20)) = 0"
proof -
  note T1 = back_bearing_is_bearing_plus_180 [of None "(10, 20)" "(30, 20)"]
  note T2 = back_bearing_is_bearing_plus_180 [of None "(30, 20)" "(10, 20)"]
  have b: "dd_bearing (calculateDistance None (10, 20) (30, 20)) = 0"
          "dd_bearing (calculateDistance None (30, 20) (10, 20)) = 180"
    using T1 by simp_all
  have "dd_backBearing (calculateDistance None (10, 20) (30, 20)) = real_mod (0 + 180) 360"
    using T1 b by simp
  then have k1: "dd_backBearing (calculateDistance None (10, 20) (30, 20)) = 180"
    by (simp add: real_mod_def)
  have "dd_backBearing (calculateDistance None (30, 20) (10, 20)) = real_mod (180 + 180) 360"
    using T2 b by simp
  then have k2: "dd_backBearing (calculateDistance None (30, 20) (10, 20)) = 0"
    by (simp add: real_mod_def)
  show ?thesis using b k1 k2 by simp
qed

text \<open>
  Claim C7 as stated fails: from \<open>(0, 0)\<close> to \<open>(45, 90)\<close> the bearing is 45 degrees, from
  \<open>(45, 90)\<close> to \<open>(0, 0)\<close> it is -90 degrees; the two differ by 135 degrees modulo 360.
\<close>

theorem opposite_bearings_counterexample:
  "dd_bearing (calculateDistance None (0, 0) (45, 90)) = 45 \<and>
   dd_bearing (calculateDistance None (45, 90) (0, 0)) = - 90 \<and>
   real_mod (dd_bearing (calculateDistance None (0, 0) (45, 90)) -
             dd_bearing (calculateDistance None (45, 90) (0, 0))) 360 = 135 \<and>
   real_mod (dd_bearing (calculateDistance None (45, 90) (0, 0)) -
             dd_bearing (calculateDistance None (0, 0) (45, 90))) 360 = 225"
proof -
  have o: "dd_bearing (calculateDistance None (0, 0) (45, 90)) = 45"
    using bearing_out by (simp add: calculateDistance_def Let_def)
  have k: "dd_bearing (calculateDistance None (45, 90) (0, 0)) = - 90"
    using bearing_back by (simp add: calculateDistance_def Let_def)
  have "real_mod (45 - (- 90)) 360 = 135" by (simp add: real_mod_def)
  moreover have "real_mod (- 90 - 45) 360 = 225"
  proof -
    have "\<lfloor>(- 135 :: real) / 360\<rfloor> = - 1" by (simp add: floor_eq_iff)
    then show ?thesis by (simp add: real_mod_def)
  qed
  ultimately show ?thesis using o k by simp
qed
section \<open>Nearest entities\<close>















text \<open>Along the equator the haversine distance is the arc: longitude difference times radius.\<close>

lemma equator_segment:
  assumes "0 \<le> l2 - l1" "l2 - l1 < 180"
  shows "turf_distance (l1, 0) (l2, 0) u = (l2 - l1) * pi / 180 * factors u"
proof -
  define h where "h = (l2 - l1) * pi / 360"
  have x: "degreesToRadians (l2 - l1) = 2 * h"
    using assms by (simp add: degreesToRadians_small h_def)
  have h0: "0 \<le> h" using assms by (simp add: h_def)
  have "(l2 - l1) * pi < 180 * pi"
    using assms(2) pi_gt_zero by (simp only: mult_less_cancel_right_pos)
  then have h1: "h < pi / 2" by (simp add: h_def)
  have s: "0 \<le> sin h" using h0 h1 pi_gt_zero by (intro sin_ge_zero) linarith+
  have c: "0 < cos h" using h0 h1 by (intro cos_gt_zero_pi) linarith+
  have sq: "1 - (sin h)\<^sup>2 = (cos h)\<^sup>2"
    using sin_cos_squared_add [of h] by linarith
  have "sqrt (1 - (sin h)\<^sup>2) = cos h" using c by (simp add: sq)
  moreover have "\<bar>sin h\<bar> = sin h" using s by simp
  ultimately have "atan2 \<bar>sin h\<bar> (sqrt (1 - (sin h)\<^sup>2)) = atan2 (sin h) (cos h)"
    by (simp only:)
  also have "\<dots> = arctan (tan h)" using c by (simp add: atan2_def tan_def)
  also have "\<dots> = h" using h0 h1 by (intro arctan_tan) linarith+
  finally have a: "atan2 \<bar>sin h\<bar> (sqrt (1 - (sin h)\<^sup>2)) = h" .
  have z: "degreesToRadians 0 = 0" by (simp add: degreesToRadians_small)
  have "turf_distance (l1, 0) (l2, 0) u = 2 * h * factors u"
    by (simp add: turf_distance_def Let_def radiansToLength_def x z a)
  then show ?thesis by (simp add: h_def)
qed

lemma east_segment:
  assumes "0 \<le> k2 - k1" "k2 - k1 < 1000"
  shows "turf_distance (180 * k1 / earthRadius, 0) (180 * k2 / earthRadius, 0) Meters = (k2 - k1) * pi"
proof -
  have d: "180 * k2 / earthRadius - 180 * k1 / earthRadius = 180 * (k2 - k1) / earthRadius"
    by (simp add: algebra_simps diff_divide_distrib)
  have "0 \<le> 180 * (k2 - k1) / earthRadius" "180 * (k2 - k1) / earthRadius < 180"
    using assms by (simp_all add: earthRadius_def)
  then have "0 \<le> 180 * k2 / earthRadius - 180 * k1 / earthRadius"
            "180 * k2 / earthRadius - 180 * k1 / earthRadius < 180"
    by (simp_all only: d)
  from equator_segment [OF this, of Meters] show ?thesis
    by (simp only: d) (simp add: earthRadius_def)
qed










section \<open>Geofence creation\<close>

text \<open>What the handler does reject: a missing or zero measure, and fewer than 3 vertices.\<close>

lemma missing_or_zero_rejected:
  "(shape_type s = ''circle'' \<and> (radius s = None \<or> radius s = Some 0) \<longrightarrow>
      (\<exists>e. createGeofence relayed (p \<lparr> gp_shape := s \<rparr>) = Inl e)) \<and>
   (shape_type s = ''polygon'' \<and> (\<forall>vs. vertices s = Some vs \<longrightarrow> length vs < 3) \<longrightarrow>
      (\<exists>e. createGeofence relayed (p \<lparr> gp_shape := s \<rparr>) = Inl e)) \<and>
   (shape_type s = ''rectangle'' \<and>
      (width s = None \<or> width s = Some 0 \<or> height s = None \<or> height s = Some 0) \<longrightarrow>
      (\<exists>e. createGeofence relayed (p \<lparr> gp_shape := s \<rparr>) = Inl e))"
  by (auto simp: createGeofence_def geofence_geometry_def split: option.splits)

text \<open>
  Claim C6 against the code: a circle of radius -5 and a rectangle of width -10 pass the
  handler's checks, and a geofence is created from the negative measure.
\<close>

theorem negative_measure_accepted:
  "(\<exists>g. createGeofence True (circle_request (- 5)) = Inr g \<and>
        gf_geometry g = turf_circle (0, 0) (- 5 / 1000)) \<and>
   (\<exists>g. createGeofence True (rectangle_request (- 10) 20) = Inr g \<and>
        gf_geometry g = Polygon (rectangle_ring (0, 0) (- 10) 20))"
  by (simp add: createGeofence_def geofence_geometry_def circle_request_def
      rectangle_request_def)
section \<open>Movement analysis\<close>

text \<open>
  While every segment is shorter than the threshold the loop only extends the candidate:
  nothing is added to the stops, whatever the candidate's duration.
\<close>

lemma stops_loop_all_close:
  assumes "\<forall>pr\<in>set prs. turf_distance (coord (fst pr)) (coord (snd pr)) Meters < stopThreshold"
  shows "stops_loop cur found prs = found"
  using assms
proof (induction prs arbitrary: cur)
  case Nil
  show ?case by simp
next
  case (Cons pr prs)
  obtain a b where pr: "pr = (a, b)" by (cases pr)
  have close: "turf_distance (coord a) (coord b) Meters < stopThreshold"
    using Cons.prems pr by simp
  have rest: "\<forall>pr\<in>set prs. turf_distance (coord (fst pr)) (coord (snd pr)) Meters < stopThreshold"
    using Cons.prems by simp
  show ?case using close Cons.IH [OF rest] by (simp add: pr Let_def)
qed

lemma slow_walk_sorted: "sort_key ev_time slow_walk = slow_walk"
  by (simp add: slow_walk_def event_east_def)

lemma positions_of_slow_walk:
  "positions_of slow_walk =
     [\<lparr> p_time = 0, p_lat = 0, p_lon = 180 * 0 / earthRadius, p_alt = 0 \<rparr>,
      \<lparr> p_time = 300000, p_lat = 0, p_lon = 180 * 12 / earthRadius, p_alt = 0 \<rparr>,
      \<lparr> p_time = 600000, p_lat = 0, p_lon = 180 * 24 / earthRadius, p_alt = 0 \<rparr>]"
  unfolding positions_of_def slow_walk_sorted
  by (simp add: slow_walk_def event_east_def)

lemma slow_walk_segments:
  "map (\<lambda>(a, b). turf_distance (coord a) (coord b) Meters) (consecutive (positions_of slow_walk)) =
     [12 * pi, 12 * pi]"
proof -
  have a: "turf_distance (180 * 0 / earthRadius, 0) (180 * 12 / earthRadius, 0) Meters = (12 - 0) * pi"
    by (rule east_segment) simp_all
  have b: "turf_distance (180 * 12 / earthRadius, 0) (180 * 24 / earthRadius, 0) Meters = (24 - 12) * pi"
    by (rule east_segment) simp_all
  show ?thesis
    using a b by (simp add: positions_of_slow_walk consecutive_def coord_def)
qed

text \<open>
  Claim C8 against the code: three points five minutes apart, each \<open>12 * \<pi>\<close> metres (about
  38 m, under the 50 m threshold) from the one before, form one candidate of 600 seconds;
  the analysis reports no stop.
\<close>

theorem trailing_stop_dropped:
  "map ev_time slow_walk = [0, 300000, 600000] \<and>
   map (\<lambda>(a, b). turf_distance (coord a) (coord b) Meters) (consecutive (positions_of slow_walk)) =
     [12 * pi, 12 * pi] \<and>
   12 * pi < stopThreshold \<and>
   (\<exists>a. analyzeMovement (select [''stops'']) slow_walk = Analysed a \<and>
        stopAnalysis a = Some \<lparr> stops = [], totalStops = 0, totalStopTime = 0 \<rparr>)"
proof -
  have t: "map ev_time slow_walk = [0, 300000, 600000]"
    by (simp add: slow_walk_def event_east_def)
  have lt: "12 * pi < stopThreshold"
    using pi_less_4 by (simp add: stopThreshold_def)
  have "\<forall>pr\<in>set (consecutive (positions_of slow_walk)).
          turf_distance (coord (fst pr)) (coord (snd pr)) Meters < stopThreshold"
  proof
    fix pr assume "pr \<in> set (consecutive (positions_of slow_walk))"
    then have "(case pr of (a, b) \<Rightarrow> turf_distance (coord a) (coord b) Meters) \<in>
                 set (map (\<lambda>(a, b). turf_distance (coord a) (coord b) Meters)
                        (consecutive (positions_of slow_walk)))"
      by (simp only: set_map image_eqI)
    then have "(case pr of (a, b) \<Rightarrow> turf_distance (coord a) (coord b) Meters) = 12 * pi"
      by (simp add: slow_walk_segments)
    then show "turf_distance (coord (fst pr)) (coord (snd pr)) Meters < stopThreshold"
      using lt by (simp add: case_prod_beta)
  qed
  then have "stops_loop None [] (consecutive (positions_of slow_walk)) = []"
    by (rule stops_loop_all_close)
  then have "stopAnalysis_of (positions_of slow_walk) =
               \<lparr> stops = [], totalStops = 0, totalStopTime = 0 \<rparr>"
    by (simp add: stopAnalysis_of_def)
  moreover have "length slow_walk = 3" by (simp add: slow_walk_def)
  ultimately have "\<exists>a. analyzeMovement (select [''stops'']) slow_walk = Analysed a \<and>
        stopAnalysis a = Some \<lparr> stops = [], totalStops = 0, totalStopTime = 0 \<rparr>"
    by (simp add: analyzeMovement_def select_def Let_def)
  then show ?thesis using t lt slow_walk_segments by simp
qed
text \<open>
  Claim C9 (as amended).  The speed, pattern and stop analyses are independent of the
  selection: each gives the same section as when it is the only one selected.  The
  anomaly analysis is not: it reads the average of the speed analysis of the same request,
  so its section is the one of a request for speed and anomaly when speed is selected as
  well, and the one of a request for anomaly alone (no anomalies) when it is not.
\<close>

theorem analyses_independent_except_anomaly:
  "(''speed'' \<in> set sel \<longrightarrow>
      section_of speedAnalysis (run_analysis sel th evs) =
      section_of speedAnalysis (run_analysis [''speed''] th evs)) \<and>
   (''pattern'' \<in> set sel \<longrightarrow>
      section_of patternAnalysis (run_analysis sel th evs) =
      section_of patternAnalysis (run_analysis [''pattern''] th evs)) \<and>
   (''stops'' \<in> set sel \<longrightarrow>
      section_of stopAnalysis (run_analysis sel th evs) =
      section_of stopAnalysis (run_analysis [''stops''] th evs)) \<and>
   (''anomaly'' \<in> set sel \<and> ''speed'' \<in> set sel \<longrightarrow>
      section_of anomalyAnalysis (run_analysis sel th evs) =
      section_of anomalyAnalysis (run_analysis [''speed'', ''anomaly''] th evs)) \<and>
   (''anomaly'' \<in> set sel \<and> ''speed'' \<notin> set sel \<longrightarrow>
      section_of anomalyAnalysis (run_analysis sel th evs) =
      section_of anomalyAnalysis (run_analysis [''anomaly''] th evs) \<and>
      (2 \<le> length evs \<longrightarrow>
         section_of anomalyAnalysis (run_analysis sel th evs) =
         Some \<lparr> anomalies = [], totalAnomalies = 0 \<rparr>))"
  by (simp add: run_analysis_def analyzeMovement_def section_of_def Let_def
      anomalyAnalysis_of_def)

lemma sprint_sorted: "sort_key ev_time sprint = sprint"
  by (simp add: sprint_def event_east_def)

lemma positions_of_sprint:
  "positions_of sprint =
     [\<lparr> p_time = 0, p_lat = 0, p_lon = 180 * 0 / earthRadius, p_alt = 0 \<rparr>,
      \<lparr> p_time = 1000, p_lat = 0, p_lon = 180 * 0 / earthRadius, p_alt = 0 \<rparr>,
      \<lparr> p_time = 2000, p_lat = 0, p_lon = 180 * 1 / earthRadius, p_alt = 0 \<rparr>]"
  unfolding positions_of_def sprint_sorted
  by (simp add: sprint_def event_east_def)

lemma sprint_standing: "turf_distance (0, 0) (0, 0) Meters = 0"
  using east_segment [of 0 0] by simp

lemma sprint_moving: "turf_distance (0, 0) (180 / earthRadius, 0) Meters = pi"
proof -
  have "turf_distance (180 * 0 / earthRadius, 0) (180 * 1 / earthRadius, 0) Meters = (1 - 0) * pi"
    by (rule east_segment) simp_all
  then show ?thesis by simp
qed

lemmas sprint_distances = sprint_standing sprint_moving

lemma sprint_speed: "averageSpeed (speedAnalysis_of (positions_of sprint)) = 18 / 10 * pi"
  unfolding positions_of_sprint speedAnalysis_of_def consecutive_def
  by (simp add: coord_def sprint_distances Let_def)

lemma sprint_anomalies:
  "length (anomaly_loop (18 / 10 * pi * (1 + 8 / 10)) (consecutive (positions_of sprint))) = 1"
  unfolding positions_of_sprint consecutive_def
  by (simp add: coord_def sprint_distances Let_def)

text \<open>
  Claim C9 as stated fails: on a track that stands for a second and then moves \<open>\<pi>\<close> metres
  in the next, the anomaly analysis finds one anomaly when speed is requested with it and
  none when it is requested alone.
\<close>

theorem anomaly_needs_speed_counterexample:
  "(\<exists>a. section_of anomalyAnalysis (run_analysis [''speed'', ''anomaly''] (Some (8 / 10)) sprint) = Some a \<and>
        totalAnomalies a = 1) \<and>
   section_of anomalyAnalysis (run_analysis [''anomaly''] (Some (8 / 10)) sprint) =
     Some \<lparr> anomalies = [], totalAnomalies = 0 \<rparr> \<and>
   section_of anomalyAnalysis (run_analysis [''speed'', ''anomaly''] (Some (8 / 10)) sprint) \<noteq>
   section_of anomalyAnalysis (run_analysis [''anomaly''] (Some (8 / 10)) sprint)"
proof -
  have n: "length sprint = 3" by (simp add: sprint_def)
  have a: "section_of anomalyAnalysis (run_analysis [''speed'', ''anomaly''] (Some (8 / 10)) sprint) =
        Some \<lparr> anomalies = anomaly_loop (18 / 10 * pi * (1 + 8 / 10)) (consecutive (positions_of sprint)),
               totalAnomalies = 1 \<rparr>"
    using n sprint_anomalies
    by (simp add: run_analysis_def analyzeMovement_def section_of_def Let_def
        anomalyAnalysis_of_def sprint_speed)
  have b: "section_of anomalyAnalysis (run_analysis [''anomaly''] (Some (8 / 10)) sprint) =
     Some \<lparr> anomalies = [], totalAnomalies = 0 \<rparr>"
    using n
    by (simp add: run_analysis_def analyzeMovement_def section_of_def Let_def
        anomalyAnalysis_of_def)
  show ?thesis unfolding a b by simp
qed

theorem analyses_independent_except_anomaly_witness:
  "section_of speedAnalysis (run_analysis [''speed'', ''stops'', ''anomaly''] (Some (8 / 10)) sprint) =
     section_of speedAnalysis (run_analysis [''speed''] (Some (8 / 10)) sprint) \<and>
   section_of stopAnalysis (run_analysis [''speed'', ''stops'', ''anomaly''] (Some (8 / 10)) sprint) =
     section_of stopAnalysis (run_analysis [''stops''] (Some (8 / 10)) sprint) \<and>
   section_of anomalyAnalysis (run_analysis [''speed'', ''stops'', ''anomaly''] (Some (8 / 10)) sprint) =
     section_of anomalyAnalysis (run_analysis [''speed'', ''anomaly''] (Some (8 / 10)) sprint) \<and>
   section_of patternAnalysis (run_analysis [''pattern'', ''anomaly''] (Some (8 / 10)) sprint) =
     section_of patternAnalysis (run_analysis [''pattern''] (Some (8 / 10)) sprint) \<and>
   2 \<le> length sprint \<and>
   section_of anomalyAnalysis (run_analysis [''pattern'', ''anomaly''] (Some (8 / 10)) sprint) =
     Some \<lparr> anomalies = [], totalAnomalies = 0 \<rparr>"
proof -
  note T1 = analyses_independent_except_anomaly
    [of "[''speed'', ''stops'', ''anomaly'']" "Some (8 / 10)" sprint]
  note T2 = analyses_independent_except_anomaly
    [of "[''pattern'', ''anomaly'']" "Some (8 / 10)" sprint]
  have n: "2 \<le> length sprint" by (simp add: sprint_def)
  have m1: "''speed'' \<in> set [''speed'', ''stops'', ''anomaly'']"
           "''stops'' \<in> set [''speed'', ''stops'', ''anomaly'']"
           "''anomaly'' \<in> set [''speed'', ''stops'', ''anomaly'']"
    by simp_all
  have m2: "''pattern'' \<in> set [''pattern'', ''anomaly'']"
           "''anomaly'' \<in> set [''pattern'', ''anomaly'']"
           "''speed'' \<notin> set [''pattern'', ''anomaly'']"
    by simp_all
  show ?thesis using T1 T2 n m1 m2 by blast
qed
section \<open>Geofence alerts\<close>

lemma evaluate_outside_counts:
  assumes "\<not> inside s"
  shows "snd (evaluate tr s r) = [] \<and> \<not> inside (fst (evaluate tr s r)) \<or>
         inside (fst (evaluate tr s r)) \<and>
           snd (evaluate tr s r) = (if entryEnabled tr then [OnEntry] else [])"
  using assms by (simp add: evaluate_def)

lemma evaluate_inside_counts:
  assumes "inside s"
  shows "\<not> inside (fst (evaluate tr s r)) \<and>
           snd (evaluate tr s r) = (if exitEnabled tr then [OnExit] else []) \<or>
         inside (fst (evaluate tr s r)) \<and>
           (snd (evaluate tr s r) = [] \<or> snd (evaluate tr s r) = [OnDwell])"
  using assms by (auto simp: evaluate_def outside_state_def split: option.splits)

text \<open>
  With the entry alert enabled, in every prefix of the alerts of a run the exits are at
  most the entries, plus one when the run starts inside.
\<close>

lemma exits_bounded:
  assumes "entryEnabled tr"
  shows "count_list (take n (concat (map snd (trace tr s rs)))) OnExit
           \<le> count_list (take n (concat (map snd (trace tr s rs)))) OnEntry
              + (if inside s then 1 else 0)"
proof (induction rs arbitrary: s n)
  case Nil
  show ?case by simp
next
  case (Cons r rs)
  let ?s' = "fst (evaluate tr s r)"
  let ?a = "snd (evaluate tr s r)"
  let ?rest = "concat (map snd (trace tr ?s' rs))"
  have split: "take n (concat (map snd (trace tr s (r # rs)))) =
                 take n ?a @ take (n - length ?a) ?rest"
    by simp
  note IH = Cons.IH [of "n - length ?a" ?s']
  show ?case
  proof (cases "inside s")
    case False
    from evaluate_outside_counts [OF False, of tr r]
    consider (stay) "?a = []" "\<not> inside ?s'" | (enter) "inside ?s'" "?a = [OnEntry]"
      using assms by auto
    then show ?thesis
    proof cases
      case stay
      then show ?thesis using IH False by (simp only: split) simp
    next
      case enter
      show ?thesis
      proof (cases n)
        case 0
        then show ?thesis by simp
      next
        case (Suc m)
        then show ?thesis using IH enter False by (simp only: split) simp
      qed
    qed
  next
    case True
    from evaluate_inside_counts [OF True, of tr r]
    consider (leave) "\<not> inside ?s'" "?a = [] \<or> ?a = [OnExit]"
      | (remain) "inside ?s'" "?a = [] \<or> ?a = [OnDwell]"
      by (auto split: if_splits)
    then show ?thesis
    proof cases
      case leave
      show ?thesis
      proof (cases n)
        case 0
        then show ?thesis by simp
      next
        case (Suc m)
        then show ?thesis using IH leave True by (simp only: split) auto
      qed
    next
      case remain
      show ?thesis
      proof (cases n)
        case 0
        then show ?thesis by simp
      next
        case (Suc m)
        then show ?thesis using IH remain True by (simp only: split) auto
      qed
    qed
  qed
qed

text \<open>After a dwell alert, no further one while the pair stays inside.\<close>

lemma evaluate_alerted:
  assumes "inside s" "dwellAlerted s"
  shows "OnDwell \<notin> set (snd (evaluate tr s r)) \<and>
         (inside (fst (evaluate tr s r)) \<longrightarrow> dwellAlerted (fst (evaluate tr s r)))"
  using assms by (auto simp: evaluate_def outside_state_def split: option.splits)

lemma evaluate_dwell_sets_flag:
  assumes "OnDwell \<in> set (snd (evaluate tr s r))"
  shows "inside (fst (evaluate tr s r)) \<and> dwellAlerted (fst (evaluate tr s r))"
  using assms by (auto simp: evaluate_def outside_state_def split: option.splits if_splits)

lemma no_second_dwell:
  assumes "inside s" "dwellAlerted s" "j < length rs"
    and "\<forall>k<j. inside (fst (trace tr s rs ! k))"
  shows "OnDwell \<notin> set (snd (trace tr s rs ! j))"
  using assms
proof (induction rs arbitrary: s j)
  case Nil
  then show ?case by simp
next
  case (Cons r rs)
  show ?case
  proof (cases j)
    case 0
    then show ?thesis using evaluate_alerted [OF Cons.prems(1,2)] by simp
  next
    case (Suc m)
    have first: "inside (fst (evaluate tr s r))"
      using Cons.prems(4) Suc by (auto dest: spec [of _ 0])
    then have fl: "dwellAlerted (fst (evaluate tr s r))"
      using evaluate_alerted [OF Cons.prems(1,2)] by simp
    have len: "m < length rs" using Cons.prems(3) Suc by simp
    have all: "\<forall>k<m. inside (fst (trace tr (fst (evaluate tr s r)) rs ! k))"
    proof (intro allI impI)
      fix k assume "k < m"
      then have "Suc k < j" using Suc by simp
      then have "inside (fst (trace tr s (r # rs) ! Suc k))" using Cons.prems(4) by blast
      then show "inside (fst (trace tr (fst (evaluate tr s r)) rs ! k))" by simp
    qed
    from Cons.IH [OF first fl len all] show ?thesis using Suc by simp
  qed
qed

lemma dwell_once_per_stay:
  assumes "i < j" "j < length rs"
    and "OnDwell \<in> set (snd (trace tr s rs ! i))"
    and "OnDwell \<in> set (snd (trace tr s rs ! j))"
  shows "\<exists>k. i < k \<and> k < j \<and> \<not> inside (fst (trace tr s rs ! k))"
  using assms
proof (induction rs arbitrary: s i j)
  case Nil
  then show ?case by simp
next
  case (Cons r rs)
  obtain m where j: "j = Suc m" using Cons.prems(1) by (cases j) auto
  have len: "m < length rs" using Cons.prems(2) j by simp
  have dj: "OnDwell \<in> set (snd (trace tr (fst (evaluate tr s r)) rs ! m))"
    using Cons.prems(4) j by simp
  show ?case
  proof (cases i)
    case 0
    then have "OnDwell \<in> set (snd (evaluate tr s r))" using Cons.prems(3) by simp
    then have st: "inside (fst (evaluate tr s r))" "dwellAlerted (fst (evaluate tr s r))"
      using evaluate_dwell_sets_flag by blast+
    have "\<not> (\<forall>k<m. inside (fst (trace tr (fst (evaluate tr s r)) rs ! k)))"
      using no_second_dwell [OF st len] dj by blast
    then obtain k where k: "k < m" "\<not> inside (fst (trace tr (fst (evaluate tr s r)) rs ! k))"
      by blast
    then have "i < Suc k \<and> Suc k < j \<and> \<not> inside (fst (trace tr s (r # rs) ! Suc k))"
      using 0 j by simp
    then show ?thesis by blast
  next
    case (Suc n)
    have lt: "n < m" using Cons.prems(1) Suc j by simp
    have di: "OnDwell \<in> set (snd (trace tr (fst (evaluate tr s r)) rs ! n))"
      using Cons.prems(3) Suc by simp
    from Cons.IH [OF lt len di dj] obtain k where
      "n < k" "k < m" "\<not> inside (fst (trace tr (fst (evaluate tr s r)) rs ! k))" by blast
    then have "i < Suc k \<and> Suc k < j \<and> \<not> inside (fst (trace tr s (r # rs) ! Suc k))"
      using Suc j by simp
    then show ?thesis by blast
  qed
qed
text \<open>
  Claim C5 (as amended), for the evaluator of the specification.  For a geofence whose entry
  alert is enabled, in every prefix of the alerts raised for one entity the exit alerts
  are at most the entry alerts: no exit without an earlier entry not yet matched by an
  exit.  For every geofence, between two dwell alerts the entity has been outside: the
  dwell alert is raised at most once per continuous stay.
\<close>

theorem exit_after_entry_dwell_once:
  "(entryEnabled tr \<longrightarrow>
      (\<forall>n. count_list (take n (alerts tr rs)) OnExit \<le> count_list (take n (alerts tr rs)) OnEntry)) \<and>
   (\<forall>i j. i < j \<and> j < length rs \<and>
          OnDwell \<in> set (snd (trace tr outside_state rs ! i)) \<and>
          OnDwell \<in> set (snd (trace tr outside_state rs ! j)) \<longrightarrow>
          (\<exists>k. i < k \<and> k < j \<and> \<not> inside (fst (trace tr outside_state rs ! k))))"
proof (intro conjI impI allI)
  fix n
  assume e: "entryEnabled tr"
  have "\<not> inside outside_state" by (simp add: outside_state_def)
  then show "count_list (take n (alerts tr rs)) OnExit \<le> count_list (take n (alerts tr rs)) OnEntry"
    using exits_bounded [OF e, of n outside_state rs] by (simp add: alerts_def)
next
  fix i j
  assume "i < j \<and> j < length rs \<and>
          OnDwell \<in> set (snd (trace tr outside_state rs ! i)) \<and>
          OnDwell \<in> set (snd (trace tr outside_state rs ! j))"
  then show "\<exists>k. i < k \<and> k < j \<and> \<not> inside (fst (trace tr outside_state rs ! k))"
    using dwell_once_per_stay [of i j rs tr outside_state] by blast
qed

lemma two_visits_trace:
  "map snd (trace all_alerts outside_state two_visits) =
     [[OnEntry], [OnDwell], [], [OnExit], [OnEntry], [OnDwell]]"
  by (simp add: two_visits_def all_alerts_def outside_state_def evaluate_def)

theorem exit_after_entry_dwell_once_witness:
  "entryEnabled all_alerts \<and>
   alerts all_alerts two_visits = [OnEntry, OnDwell, OnExit, OnEntry, OnDwell] \<and>
   count_list (take 3 (alerts all_alerts two_visits)) OnExit
     \<le> count_list (take 3 (alerts all_alerts two_visits)) OnEntry \<and>
   (1::nat) < 5 \<and> 5 < length two_visits \<and>
   OnDwell \<in> set (snd (trace all_alerts outside_state two_visits ! 1)) \<and>
   OnDwell \<in> set (snd (trace all_alerts outside_state two_visits ! 5)) \<and>
   (\<exists>k. 1 < k \<and> k < 5 \<and> \<not> inside (fst (trace all_alerts outside_state two_visits ! k)))"
proof -
  note T = exit_after_entry_dwell_once [of all_alerts two_visits]
  have e: "entryEnabled all_alerts" by (simp add: all_alerts_def)
  have a: "alerts all_alerts two_visits = [OnEntry, OnDwell, OnExit, OnEntry, OnDwell]"
    by (simp add: alerts_def two_visits_trace)
  have c: "count_list (take 3 (alerts all_alerts two_visits)) OnExit
             \<le> count_list (take 3 (alerts all_alerts two_visits)) OnEntry"
    using T e by blast
  have l: "5 < length two_visits" by (simp add: two_visits_def)
  have n: "length (trace all_alerts outside_state two_visits) = 6"
    using arg_cong [OF two_visits_trace, of length] by simp
  have "map snd (trace all_alerts outside_state two_visits) ! 1 =
        snd (trace all_alerts outside_state two_visits ! 1)"
    by (rule nth_map) (simp add: n)
  then have "[OnDwell] = snd (trace all_alerts outside_state two_visits ! 1)"
    by (simp only: two_visits_trace) simp
  then have d1: "OnDwell \<in> set (snd (trace all_alerts outside_state two_visits ! 1))"
    by (metis list.set_intros(1))
  have "map snd (trace all_alerts outside_state two_visits) ! 5 =
        snd (trace all_alerts outside_state two_visits ! 5)"
    by (rule nth_map) (simp add: n)
  then have "[OnDwell] = snd (trace all_alerts outside_state two_visits ! 5)"
    by (simp only: two_visits_trace) simp
  then have d5: "OnDwell \<in> set (snd (trace all_alerts outside_state two_visits ! 5))"
    by (metis list.set_intros(1))
  have "(1::nat) < 5 \<and> 5 < length two_visits \<and>
          OnDwell \<in> set (snd (trace all_alerts outside_state two_visits ! 1)) \<and>
          OnDwell \<in> set (snd (trace all_alerts outside_state two_visits ! 5))"
    using l d1 d5 by simp
  with T have k: "\<exists>k. 1 < k \<and> k < 5 \<and> \<not> inside (fst (trace all_alerts outside_state two_visits ! k))"
    by blast
  show ?thesis using e a c l d1 d5 k by simp
qed

text \<open>
  Claim C5 as stated fails for a geofence with the entry alert disabled and the exit alert
  enabled: a report inside followed by a report outside raises the exit alert alone.
\<close>

theorem exit_without_entry_counterexample:
  "\<not> entryEnabled exit_only \<and> exitEnabled exit_only \<and>
   alerts exit_only in_and_out = [OnExit] \<and>
   count_list (alerts exit_only in_and_out) OnExit = 1 \<and>
   count_list (alerts exit_only in_and_out) OnEntry = 0"
  by (simp add: alerts_def in_and_out_def exit_only_def outside_state_def evaluate_def)

end
